theory Spec2Isabelle
  imports Complex_Main
begin

section \<open>Arrays and constants\<close>

text \<open>
  The program computes on numpy arrays of floats. An array is modelled flattened, as the
  list of its elements, and a float as a real number (exact arithmetic: rounding,
  infinities and NaN are outside the model; a division by zero gives 0 here).
  Elementwise operations combine the elements position by position. numpy's shape
  errors and broadcasting between arrays of different shapes are outside the model:
  the callables of a simulation are expected to return arrays shaped like the mesh.
  An array of shape (3,) such as \<^verbatim>\<open>moment_disp[:, k]\<close> is a triple.
\<close>

type_synonym ndarray = "real list"
type_synonym vec3 = "real \<times> real \<times> real"
type_synonym field3 = "ndarray \<times> ndarray \<times> ndarray"

text \<open>\<^verbatim>\<open>scipy.constants\<close>: c is exact; epsilon_0 is the CODATA 2018 value. pi is \<^term>\<open>pi\<close>.\<close>

definition const_c :: real where
  "const_c = 299792458"

definition const_eps :: real where
  "const_eps = 8.8541878128 / 10 ^ 12"

definition aadd :: "ndarray \<Rightarrow> ndarray \<Rightarrow> ndarray" where
  "aadd a b = map2 (+) a b"

definition asub :: "ndarray \<Rightarrow> ndarray \<Rightarrow> ndarray" where
  "asub a b = map2 (-) a b"

definition amul :: "ndarray \<Rightarrow> ndarray \<Rightarrow> ndarray" where
  "amul a b = map2 (*) a b"

definition adiv :: "ndarray \<Rightarrow> ndarray \<Rightarrow> ndarray" where
  "adiv a b = map2 (/) a b"

text \<open>A scalar on the left of an array, and an array divided by a scalar.\<close>

definition smul :: "real \<Rightarrow> ndarray \<Rightarrow> ndarray" where
  "smul s a = map (\<lambda>v. s * v) a"

definition ssub :: "real \<Rightarrow> ndarray \<Rightarrow> ndarray" where
  "ssub s a = map (\<lambda>v. s - v) a"

definition sdiv :: "real \<Rightarrow> ndarray \<Rightarrow> ndarray" where
  "sdiv s a = map (\<lambda>v. s / v) a"

definition divs :: "ndarray \<Rightarrow> real \<Rightarrow> ndarray" where
  "divs a s = map (\<lambda>v. v / s) a"

text \<open>\<^verbatim>\<open>a**2\<close>, \<^verbatim>\<open>a**3\<close> and \<^verbatim>\<open>a**0.5\<close>.\<close>

definition asqr :: "ndarray \<Rightarrow> ndarray" where
  "asqr a = map (\<lambda>v. v ^ 2) a"

definition acube :: "ndarray \<Rightarrow> ndarray" where
  "acube a = map (\<lambda>v. v ^ 3) a"

definition asqrt :: "ndarray \<Rightarrow> ndarray" where
  "asqrt a = map sqrt a"

text \<open>\<^verbatim>\<open>np.zeros(x.shape)\<close>, and \<^verbatim>\<open>np.ones(x.shape)\<close> filled with one value.\<close>

definition zeros :: "ndarray \<Rightarrow> ndarray" where
  "zeros x = map (\<lambda>_. 0) x"

definition full :: "ndarray \<Rightarrow> real \<Rightarrow> ndarray" where
  "full x v = map (\<lambda>_. v) x"

definition add3 :: "field3 \<Rightarrow> field3 \<Rightarrow> field3" where
  "add3 F G = (aadd (fst F) (fst G), aadd (fst (snd F)) (fst (snd G)),
               aadd (snd (snd F)) (snd (snd G)))"

section \<open>Data model\<close>

datatype error = TypeError | ValueError | UnboundLocalError | NotImplementedError

text \<open>
  The definitions follow simulation.py and keep its names; the underscore in front of
  the name of a private method is dropped.

  The classes \<^verbatim>\<open>Charge\<close> and \<^verbatim>\<open>Dipole\<close> belong to the modules charges.py and dipole.py,
  which are not embedded. An object of either class is a record of the attributes and
  methods that simulation.py reads; a method is a field holding a function. The methods
  that mutate a dipole are parameters of the model (record \<open>env\<close> below).

  Objects live in a store and are named by references, because the same charge object
  is reachable both from \<^verbatim>\<open>Simulation.all_charges\<close> and from \<^verbatim>\<open>Dipole.charge_pair\<close>.
\<close>

record charge =
  q :: real
  xpos :: "ndarray \<Rightarrow> ndarray"
  ypos :: "ndarray \<Rightarrow> ndarray"
  zpos :: "ndarray \<Rightarrow> ndarray"
  xvel :: "ndarray \<Rightarrow> ndarray"
  yvel :: "ndarray \<Rightarrow> ndarray"
  zvel :: "ndarray \<Rightarrow> ndarray"
  xacc :: "ndarray \<Rightarrow> ndarray"
  yacc :: "ndarray \<Rightarrow> ndarray"
  zacc :: "ndarray \<Rightarrow> ndarray"
  solve_time :: "ndarray \<Rightarrow> ndarray \<Rightarrow> ndarray \<Rightarrow> ndarray \<Rightarrow> ndarray \<Rightarrow> ndarray"
  velocity :: "nat \<Rightarrow> vec3"

text \<open>
  \<open>velocity k\<close> is the column \<^verbatim>\<open>velocity[:, k]\<close> of the per-timestep array of a
  dipole's member charge. The arrays indexed by timestep are functions of the index.
  \<open>t_index\<close> is the index of the last timestep a dipole has written: its methods are
  not told the index, and simulation.py never reads the attribute.
\<close>

record dipole =
  charge_pair :: "nat \<times> nat"
  t_index :: nat
  dq :: real
  m_eff :: real
  gamma_0 :: real
  omega_0 :: real
  polar_dir :: vec3
  origin :: "real \<Rightarrow> vec3"
  moment_disp :: "nat \<Rightarrow> vec3"
  moment_vel :: "nat \<Rightarrow> vec3"
  moment_acc :: "nat \<Rightarrow> vec3"
  E_total :: "nat \<Rightarrow> vec3"
  E_vel :: "nat \<Rightarrow> vec3"
  E_acc :: "nat \<Rightarrow> vec3"

type_synonym field_callable = "real \<Rightarrow> ndarray \<Rightarrow> ndarray \<Rightarrow> ndarray \<Rightarrow> field3"

text \<open>\<open>None\<close> in an optional field is Python's \<^verbatim>\<open>None\<close>.\<close>

record simulation =
  E_field :: "field_callable option"
  B_field :: "field_callable option"
  h :: real
  all_charges :: "nat list"
  dipoles :: "nat list"
  timesteps :: "int option"
  dt :: "real option"
  save_E :: "bool option"

text \<open>What \<^verbatim>\<open>pickle.load\<close> can return: a \<^verbatim>\<open>Simulation\<close>, or an object of another class.\<close>

datatype pyobj = PySimulation simulation | PyOther

text \<open>
  \<open>files name\<close> is the sequence of objects stored in a file, \<open>None\<close> when there is no
  such file. The charges and dipoles of a stored simulation stand in the store under
  references of their own: unpickling builds new objects.
\<close>

record world =
  charge_at :: "nat \<Rightarrow> charge"
  dipole_at :: "nat \<Rightarrow> dipole"
  files :: "string \<Rightarrow> pyobj list option"

text \<open>
  The code that is not embedded: \<^verbatim>\<open>scipy.optimize.newton(func, x0, tol=...)\<close>,
  \<^verbatim>\<open>Charge.__eq__\<close>, \<^verbatim>\<open>Dipole.reset\<close>, \<^verbatim>\<open>Dipole.update_timestep\<close> and \<^verbatim>\<open>pickle.dump\<close>
  (which returns the stored copy and the store holding the copy's objects).
\<close>

record env =
  newton :: "(ndarray \<Rightarrow> ndarray) \<Rightarrow> ndarray \<Rightarrow> real \<Rightarrow> ndarray"
  Charge_eq :: "charge \<Rightarrow> charge \<Rightarrow> bool"
  Dipole_reset :: "nat \<Rightarrow> int \<Rightarrow> real \<Rightarrow> bool \<Rightarrow> world \<Rightarrow> world"
  Dipole_update_timestep ::
    "nat \<Rightarrow> vec3 \<Rightarrow> vec3 \<Rightarrow> vec3 \<Rightarrow> (vec3 \<times> vec3 \<times> vec3) option \<Rightarrow> world \<Rightarrow> world"
  pickle_dump :: "simulation \<Rightarrow> world \<Rightarrow> pyobj \<times> world"

section \<open>Field synthesis\<close>

text \<open>
  \<^verbatim>\<open>charge in exclude_charges\<close>: some element is the same object or compares equal.
\<close>

definition py_in :: "env \<Rightarrow> world \<Rightarrow> nat \<Rightarrow> nat list \<Rightarrow> bool" where
  "py_in X w charge cs =
     list_ex (\<lambda>e. charge = e \<or> Charge_eq X (charge_at w charge) (charge_at w e)) cs"

text \<open>\<^verbatim>\<open>exclude_charges is not None and charge in exclude_charges\<close>\<close>

definition excluded :: "env \<Rightarrow> world \<Rightarrow> nat list option \<Rightarrow> nat \<Rightarrow> bool" where
  "excluded X w exclude_charges charge =
     (case exclude_charges of None \<Rightarrow> False | Some cs \<Rightarrow> py_in X w charge cs)"

text \<open>\<^verbatim>\<open>initial_guess = -1e-12*np.ones((x.shape))\<close>\<close>

definition initial_guess :: "ndarray \<Rightarrow> ndarray" where
  "initial_guess x = smul (- 1 / 10 ^ 12) (full x 1)"

text \<open>
  \<^verbatim>\<open>Simulation._calculate_individual_E\<close>. The function ends without a \<^verbatim>\<open>return\<close> when the
  selector is none of the three strings: the result is then \<^verbatim>\<open>None\<close>.
\<close>

definition calculate_individual_E ::
  "charge \<Rightarrow> ndarray \<Rightarrow> ndarray \<Rightarrow> ndarray \<Rightarrow> ndarray \<Rightarrow> string \<Rightarrow> field3 option" where
  "calculate_individual_E charge tr x y z pcharge_field =
    (let rx = asub x (xpos charge tr);
         ry = asub y (ypos charge tr);
         rz = asub z (zpos charge tr);
         r_mag = asqrt (aadd (aadd (asqr rx) (asqr ry)) (asqr rz));
         vx = xvel charge tr;
         vy = yvel charge tr;
         vz = zvel charge tr;
         ax = xacc charge tr;
         ay = yacc charge tr;
         az = zacc charge tr;
         ux = asub (adiv (smul const_c rx) r_mag) vx;
         uy = asub (adiv (smul const_c ry) r_mag) vy;
         uz = asub (adiv (smul const_c rz) r_mag) vz;
         r_dot_u = aadd (aadd (amul rx ux) (amul ry uy)) (amul rz uz);
         r_dot_a = aadd (aadd (amul rx ax) (amul ry ay)) (amul rz az);
         vel_mag = asqrt (aadd (aadd (asqr vx) (asqr vy)) (asqr vz));
         const = adiv (smul (q charge / (4 * pi * const_eps)) r_mag) (acube r_dot_u);
         xvel_field = amul (amul const (ssub (const_c ^ 2) (asqr vel_mag))) ux;
         yvel_field = amul (amul const (ssub (const_c ^ 2) (asqr vel_mag))) uy;
         zvel_field = amul (amul const (ssub (const_c ^ 2) (asqr vel_mag))) uz;
         xacc_field = amul const (asub (amul r_dot_a ux) (amul r_dot_u ax));
         yacc_field = amul const (asub (amul r_dot_a uy) (amul r_dot_u ay));
         zacc_field = amul const (asub (amul r_dot_a uz) (amul r_dot_u az))
     in if pcharge_field = ''Velocity'' then Some (xvel_field, yvel_field, zvel_field)
        else if pcharge_field = ''Acceleration'' then Some (xacc_field, yacc_field, zacc_field)
        else if pcharge_field = ''Total'' then
          Some (aadd xvel_field xacc_field, aadd yvel_field yacc_field,
                aadd zvel_field zacc_field)
        else None)"

text \<open>
  The loop of \<^verbatim>\<open>Simulation.calculate_E\<close> over \<^verbatim>\<open>self.all_charges\<close>, with the accumulators
  \<^verbatim>\<open>Ex, Ey, Ez\<close>. Indexing the result \<^verbatim>\<open>None\<close> of an unknown selector raises TypeError.
\<close>

fun calculate_E_loop ::
  "env \<Rightarrow> simulation \<Rightarrow> world \<Rightarrow> ndarray \<Rightarrow> ndarray \<Rightarrow> ndarray \<Rightarrow> ndarray \<Rightarrow> string \<Rightarrow>
   nat list option \<Rightarrow> nat list \<Rightarrow> field3 \<Rightarrow> error + field3" where
  "calculate_E_loop X self w t_array x y z pcharge_field exclude_charges [] E = Inr E"
| "calculate_E_loop X self w t_array x y z pcharge_field exclude_charges (charge # rest) E =
    (if excluded X w exclude_charges charge
     then calculate_E_loop X self w t_array x y z pcharge_field exclude_charges rest E
     else
       let tr = newton X (\<lambda>tr. solve_time (charge_at w charge) tr t_array x y z)
                  (initial_guess x) (h self)
       in case calculate_individual_E (charge_at w charge) tr x y z pcharge_field of
            None \<Rightarrow> Inl TypeError
          | Some E_field' \<Rightarrow>
              calculate_E_loop X self w t_array x y z pcharge_field exclude_charges rest
                (add3 E E_field'))"

text \<open>The external field is added if there is one, evaluated at the query time \<open>t\<close>.\<close>

definition add_external :: "field_callable option \<Rightarrow> real \<Rightarrow> ndarray \<Rightarrow> ndarray \<Rightarrow> ndarray \<Rightarrow>
   field3 \<Rightarrow> field3" where
  "add_external F t x y z E =
     (case F of None \<Rightarrow> E
      | Some f \<Rightarrow> (aadd (fst E) (fst (f t x y z)),
                   aadd (fst (snd E)) (fst (snd (f t x y z))),
                   aadd (snd (snd E)) (snd (snd (f t x y z)))))"

definition calculate_E ::
  "env \<Rightarrow> simulation \<Rightarrow> world \<Rightarrow> real \<Rightarrow> ndarray \<Rightarrow> ndarray \<Rightarrow> ndarray \<Rightarrow> string \<Rightarrow>
   nat list option \<Rightarrow> error + field3" where
  "calculate_E X self w t x y z pcharge_field exclude_charges =
    (let t_array = full x t
     in case calculate_E_loop X self w t_array x y z pcharge_field exclude_charges
               (all_charges self) (zeros x, zeros x, zeros x) of
          Inl e \<Rightarrow> Inl e
        | Inr E \<Rightarrow> Inr (add_external (E_field self) t x y z E))"

text \<open>
  The body of the loop of \<^verbatim>\<open>Simulation.calculate_B\<close> after the E field of the charge
  is known: the three terms added to \<^verbatim>\<open>Bx, By, Bz\<close>.
\<close>

definition B_terms :: "charge \<Rightarrow> ndarray \<Rightarrow> ndarray \<Rightarrow> ndarray \<Rightarrow> ndarray \<Rightarrow> field3 \<Rightarrow> field3" where
  "B_terms charge tr x y z E =
    (let E_x = fst E; E_y = fst (snd E); E_z = snd (snd E);
         rx = asub x (xpos charge tr);
         ry = asub y (ypos charge tr);
         rz = asub z (zpos charge tr);
         r_mag = asqrt (aadd (aadd (asqr rx) (asqr ry)) (asqr rz))
     in (amul (sdiv 1 (smul const_c r_mag)) (asub (amul ry E_z) (amul rz E_y)),
         amul (sdiv 1 (smul const_c r_mag)) (asub (amul rz E_x) (amul rx E_z)),
         amul (sdiv 1 (smul const_c r_mag)) (asub (amul rx E_y) (amul ry E_x))))"

text \<open>Unpacking the result \<^verbatim>\<open>None\<close> of an unknown selector raises TypeError.\<close>

fun calculate_B_loop ::
  "env \<Rightarrow> simulation \<Rightarrow> world \<Rightarrow> ndarray \<Rightarrow> ndarray \<Rightarrow> ndarray \<Rightarrow> ndarray \<Rightarrow> string \<Rightarrow>
   nat list option \<Rightarrow> nat list \<Rightarrow> field3 \<Rightarrow> error + field3" where
  "calculate_B_loop X self w t_array x y z pcharge_field exclude_charges [] B = Inr B"
| "calculate_B_loop X self w t_array x y z pcharge_field exclude_charges (charge # rest) B =
    (if excluded X w exclude_charges charge
     then calculate_B_loop X self w t_array x y z pcharge_field exclude_charges rest B
     else
       let tr = newton X (\<lambda>tr. solve_time (charge_at w charge) tr t_array x y z)
                  (initial_guess x) (h self)
       in case calculate_individual_E (charge_at w charge) tr x y z pcharge_field of
            None \<Rightarrow> Inl TypeError
          | Some E \<Rightarrow>
              calculate_B_loop X self w t_array x y z pcharge_field exclude_charges rest
                (add3 B (B_terms (charge_at w charge) tr x y z E)))"

definition calculate_B ::
  "env \<Rightarrow> simulation \<Rightarrow> world \<Rightarrow> real \<Rightarrow> ndarray \<Rightarrow> ndarray \<Rightarrow> ndarray \<Rightarrow> string \<Rightarrow>
   nat list option \<Rightarrow> error + field3" where
  "calculate_B X self w t x y z pcharge_field exclude_charges =
    (let t_array = full x t
     in case calculate_B_loop X self w t_array x y z pcharge_field exclude_charges
               (all_charges self) (zeros x, zeros x, zeros x) of
          Inl e \<Rightarrow> Inl e
        | Inr B \<Rightarrow> Inr (add_external (B_field self) t x y z B))"

text \<open>\<^verbatim>\<open>Simulation.calculate_V\<close> and \<^verbatim>\<open>Simulation.calculate_A\<close> take no selector.\<close>

fun calculate_V_loop ::
  "env \<Rightarrow> simulation \<Rightarrow> world \<Rightarrow> ndarray \<Rightarrow> ndarray \<Rightarrow> ndarray \<Rightarrow> ndarray \<Rightarrow>
   nat list option \<Rightarrow> nat list \<Rightarrow> ndarray \<Rightarrow> ndarray" where
  "calculate_V_loop X self w t_array x y z exclude_charges [] V = V"
| "calculate_V_loop X self w t_array x y z exclude_charges (charge # rest) V =
    (if excluded X w exclude_charges charge
     then calculate_V_loop X self w t_array x y z exclude_charges rest V
     else
       let tr = newton X (\<lambda>tr. solve_time (charge_at w charge) tr t_array x y z)
                  (initial_guess x) (h self);
           rx = asub x (xpos (charge_at w charge) tr);
           ry = asub y (ypos (charge_at w charge) tr);
           rz = asub z (zpos (charge_at w charge) tr);
           r_mag = asqrt (aadd (aadd (asqr rx) (asqr ry)) (asqr rz));
           vx = xvel (charge_at w charge) tr;
           vy = yvel (charge_at w charge) tr;
           vz = zvel (charge_at w charge) tr;
           r_dot_v = aadd (aadd (amul rx vx) (amul ry vy)) (amul rz vz)
       in calculate_V_loop X self w t_array x y z exclude_charges rest
            (aadd V (sdiv (q (charge_at w charge) * const_c)
                       (smul (4 * pi * const_eps) (asub (smul const_c r_mag) r_dot_v)))))"

definition calculate_V ::
  "env \<Rightarrow> simulation \<Rightarrow> world \<Rightarrow> real \<Rightarrow> ndarray \<Rightarrow> ndarray \<Rightarrow> ndarray \<Rightarrow>
   nat list option \<Rightarrow> ndarray" where
  "calculate_V X self w t x y z exclude_charges =
    (let t_array = full x t
     in calculate_V_loop X self w t_array x y z exclude_charges (all_charges self) (zeros x))"



section \<open>Construction, equality and persistence\<close>

text \<open>
  A source is a \<^verbatim>\<open>Dipole\<close> object or any other object (taken as a \<^verbatim>\<open>Charge\<close>); the
  argument \<^verbatim>\<open>sources\<close> is one source or a sequence of them.
\<close>

datatype source = SrcCharge nat | SrcDipole nat

datatype sources = Single source | Sequence "source list"

text \<open>The loop of \<^verbatim>\<open>Simulation.__init__\<close>, on the pair \<^verbatim>\<open>(all_charges, dipoles)\<close>.\<close>

fun init_sources :: "world \<Rightarrow> source list \<Rightarrow> nat list \<times> nat list \<Rightarrow> nat list \<times> nat list" where
  "init_sources w [] both = both"
| "init_sources w (SrcDipole d # rest) (cs, ds) =
     init_sources w rest
       (cs @ [fst (charge_pair (dipole_at w d))] @ [snd (charge_pair (dipole_at w d))], ds @ [d])"
| "init_sources w (SrcCharge c # rest) (cs, ds) = init_sources w rest (cs @ [c], ds)"

text \<open>\<^verbatim>\<open>Simulation.__init__\<close>; an argument \<open>None\<close> for \<open>h\<close> stands for the default.\<close>

definition Simulation_init ::
  "world \<Rightarrow> sources \<Rightarrow> field_callable option \<Rightarrow> field_callable option \<Rightarrow> real option \<Rightarrow>
   simulation" where
  "Simulation_init w sources' E_field' B_field' h' =
    (let srcs = (case sources' of Single s \<Rightarrow> [s] | Sequence l \<Rightarrow> l);
         both = init_sources w srcs ([], [])
     in \<lparr>E_field = E_field', B_field = B_field',
         h = (case h' of None \<Rightarrow> 1 / 10 ^ 22 | Some v \<Rightarrow> v),
         all_charges = fst both, dipoles = snd both,
         timesteps = None, dt = None, save_E = None\<rparr>)"

text \<open>
  \<^verbatim>\<open>Simulation.__eq__\<close>. Two Python lists are equal when they have the same length and
  the elements at each position are the same object or compare equal.
\<close>

definition Simulation_eq :: "env \<Rightarrow> world \<Rightarrow> simulation \<Rightarrow> pyobj \<Rightarrow> bool" where
  "Simulation_eq X w self other =
    (case other of
       PyOther \<Rightarrow> False
     | PySimulation other' \<Rightarrow>
         dt self = dt other'
         \<and> list_all2 (\<lambda>a b. a = b \<or> Charge_eq X (charge_at w a) (charge_at w b))
              (all_charges self) (all_charges other')
         \<and> timesteps self = timesteps other')"

text \<open>\<^verbatim>\<open>Simulation._save\<close>: the file is opened for appending.\<close>

definition Simulation_save :: "env \<Rightarrow> simulation \<Rightarrow> string \<Rightarrow> world \<Rightarrow> world" where
  "Simulation_save X self file w =
    (let stored = pickle_dump X self w; w' = snd stored
     in w'\<lparr>files := (files w')
            (file := Some ((case files w' file of None \<Rightarrow> [] | Some objs \<Rightarrow> objs) @ [fst stored]))\<rparr>)"

text \<open>
  \<^verbatim>\<open>Simulation._load\<close>. The objects of the file are read one after the other until one
  is equal to \<open>self\<close>; at the end of the file \<^verbatim>\<open>pickle.load\<close> raises EOFError.
\<close>

fun first_equal :: "env \<Rightarrow> world \<Rightarrow> simulation \<Rightarrow> pyobj list \<Rightarrow> simulation option" where
  "first_equal X w self [] = None"
| "first_equal X w self (PyOther # rest) = first_equal X w self rest"
| "first_equal X w self (PySimulation loaded # rest) =
     (if Simulation_eq X w self (PySimulation loaded) then Some loaded
      else first_equal X w self rest)"

text \<open>\<^verbatim>\<open>dipole.__dict__ = loaded_dipole.__dict__\<close>, for each pair of the \<^verbatim>\<open>zip\<close>.\<close>

fun restore_dipoles :: "(nat \<times> nat) list \<Rightarrow> world \<Rightarrow> world" where
  "restore_dipoles [] w = w"
| "restore_dipoles ((d, loaded_d) # rest) w =
     restore_dipoles rest (w\<lparr>dipole_at := (dipole_at w)(d := dipole_at w loaded_d)\<rparr>)"

definition Simulation_load :: "env \<Rightarrow> simulation \<Rightarrow> string \<Rightarrow> world \<Rightarrow> bool \<times> world" where
  "Simulation_load X self file w =
    (case files w file of
       None \<Rightarrow> (False, w)
     | Some objs \<Rightarrow>
         (case first_equal X w self objs of
            None \<Rightarrow> (False, w)
          | Some loaded \<Rightarrow> (True, restore_dipoles (zip (dipoles self) (dipoles loaded)) w)))"

section \<open>Dipole integrator\<close>

definition vadd :: "vec3 \<Rightarrow> vec3 \<Rightarrow> vec3" where
  "vadd a b = (fst a + fst b, fst (snd a) + fst (snd b), snd (snd a) + snd (snd b))"

definition vsub :: "vec3 \<Rightarrow> vec3 \<Rightarrow> vec3" where
  "vsub a b = (fst a - fst b, fst (snd a) - fst (snd b), snd (snd a) - snd (snd b))"

definition vscale :: "real \<Rightarrow> vec3 \<Rightarrow> vec3" where
  "vscale s a = (s * fst a, s * fst (snd a), s * snd (snd a))"

definition vdivs :: "vec3 \<Rightarrow> real \<Rightarrow> vec3" where
  "vdivs a s = (fst a / s, fst (snd a) / s, snd (snd a) / s)"

text \<open>\<^verbatim>\<open>np.linalg.norm\<close> of an array of shape (3,).\<close>

definition norm3 :: "vec3 \<Rightarrow> real" where
  "norm3 a = sqrt ((fst a)\<^sup>2 + (fst (snd a))\<^sup>2 + (snd (snd a))\<^sup>2)"

text \<open>The array of shape (2, 3) of the integrator: displacement row, velocity row.\<close>

type_synonym state23 = "vec3 \<times> vec3"

definition yadd :: "state23 \<Rightarrow> state23 \<Rightarrow> state23" where
  "yadd a b = (vadd (fst a) (fst b), vadd (snd a) (snd b))"

definition yscale :: "real \<Rightarrow> state23 \<Rightarrow> state23" where
  "yscale s a = (vscale s (fst a), vscale s (snd a))"

definition ydivs :: "state23 \<Rightarrow> real \<Rightarrow> state23" where
  "ydivs a s = (vdivs (fst a) s, vdivs (snd a) s)"

text \<open>\<^verbatim>\<open>np.array((Ex, Ey, Ez)).flatten()\<close>\<close>

definition flatten3 :: "field3 \<Rightarrow> ndarray" where
  "flatten3 E = fst E @ fst (snd E) @ snd (snd E)"

text \<open>
  \<^verbatim>\<open>dipole.polar_dir * np.array(E)\<close>: the shapes (3,) and (n,) go together for n = 3
  and, by broadcasting, for n = 1; otherwise numpy raises ValueError.
\<close>

definition times_polar :: "vec3 \<Rightarrow> ndarray \<Rightarrow> error + vec3" where
  "times_polar p E =
    (case E of
       [a, b, c] \<Rightarrow> Inr (fst p * a, fst (snd p) * b, snd (snd p) * c)
     | [a] \<Rightarrow> Inr (fst p * a, fst (snd p) * a, snd (snd p) * a)
     | _ \<Rightarrow> Inl ValueError)"

text \<open>
  \<^verbatim>\<open>Simulation._E_driving\<close>. Its flag \<^verbatim>\<open>return_all\<close> selects the type of the result, and
  every call passes a literal: \<open>E_driving\<close> is the function at \<^verbatim>\<open>return_all=False\<close>,
  \<open>E_driving_all\<close> the function at \<^verbatim>\<open>return_all=True\<close>. The mesh is the single point
  \<^verbatim>\<open>dipole.origin(t)\<close>.
\<close>

definition E_driving :: "env \<Rightarrow> simulation \<Rightarrow> world \<Rightarrow> real \<Rightarrow> nat \<Rightarrow> error + vec3" where
  "E_driving X self w t d =
    (let dipole = dipole_at w d;
         x = [fst (origin dipole t)];
         y = [fst (snd (origin dipole t))];
         z = [snd (snd (origin dipole t))]
     in case calculate_E X self w t x y z ''Total''
               (Some [fst (charge_pair dipole), snd (charge_pair dipole)]) of
          Inl e \<Rightarrow> Inl e
        | Inr E \<Rightarrow> times_polar (polar_dir dipole) (flatten3 E))"

definition E_driving_all ::
  "env \<Rightarrow> simulation \<Rightarrow> world \<Rightarrow> real \<Rightarrow> nat \<Rightarrow> error + vec3 \<times> vec3 \<times> vec3" where
  "E_driving_all X self w t d =
    (let dipole = dipole_at w d;
         x = [fst (origin dipole t)];
         y = [fst (snd (origin dipole t))];
         z = [snd (snd (origin dipole t))];
         pair = Some [fst (charge_pair dipole), snd (charge_pair dipole)]
     in case calculate_E X self w t x y z ''Total'' pair of
          Inl e \<Rightarrow> Inl e
        | Inr E \<Rightarrow>
     (case calculate_E X self w t x y z ''Velocity'' pair of
          Inl e \<Rightarrow> Inl e
        | Inr EV \<Rightarrow>
     (case calculate_E X self w t x y z ''Acceleration'' pair of
          Inl e \<Rightarrow> Inl e
        | Inr EA \<Rightarrow>
     (case times_polar (polar_dir dipole) (flatten3 E) of
          Inl e \<Rightarrow> Inl e
        | Inr PT \<Rightarrow>
     (case times_polar (polar_dir dipole) (flatten3 EV) of
          Inl e \<Rightarrow> Inl e
        | Inr PV \<Rightarrow>
     (case times_polar (polar_dir dipole) (flatten3 EA) of
          Inl e \<Rightarrow> Inl e
        | Inr PA \<Rightarrow> Inr (PT, PV, PA)))))))"

text \<open>\<^verbatim>\<open>Simulation._LO_equation\<close>\<close>

definition LO_equation ::
  "env \<Rightarrow> simulation \<Rightarrow> world \<Rightarrow> real \<Rightarrow> state23 \<Rightarrow> nat \<Rightarrow> error + state23" where
  "LO_equation X self w t y d =
    (case E_driving X self w t d of
       Inl e \<Rightarrow> Inl e
     | Inr E \<Rightarrow>
         Inr (snd y,
              vsub (vsub (vscale (dq (dipole_at w d) / m_eff (dipole_at w d)) E)
                         (vscale (gamma_0 (dipole_at w d)) (snd y)))
                   (vscale ((omega_0 (dipole_at w d))\<^sup>2) (fst y))))"

text \<open>
  \<^verbatim>\<open>Simulation._rk4\<close>. Before a run \<^verbatim>\<open>self.dt\<close> is \<^verbatim>\<open>None\<close>, and the product
  \<^verbatim>\<open>t_step*self.dt\<close> raises TypeError.
\<close>

definition rk4 :: "env \<Rightarrow> simulation \<Rightarrow> world \<Rightarrow> nat \<Rightarrow> nat \<Rightarrow> error + state23" where
  "rk4 X self w t_step d =
    (case dt self of
       None \<Rightarrow> Inl TypeError
     | Some dt' \<Rightarrow>
    (let y = (moment_disp (dipole_at w d) t_step, moment_vel (dipole_at w d) t_step);
         t = real t_step * dt'
     in case LO_equation X self w t y d of
          Inl e \<Rightarrow> Inl e
        | Inr f1 \<Rightarrow>
     (let k1 = yscale dt' f1
      in case LO_equation X self w (t + dt' / 2) (yadd y (ydivs k1 2)) d of
          Inl e \<Rightarrow> Inl e
        | Inr f2 \<Rightarrow>
     (let k2 = yscale dt' f2
      in case LO_equation X self w (t + dt' / 2) (yadd y (ydivs k2 2)) d of
          Inl e \<Rightarrow> Inl e
        | Inr f3 \<Rightarrow>
     (let k3 = yscale dt' f3
      in case LO_equation X self w (t + dt') (yadd y k3) d of
          Inl e \<Rightarrow> Inl e
        | Inr f4 \<Rightarrow>
     (let k4 = yscale dt' f4
      in Inr (yadd y (yscale (1 / 6)
                (yadd (yadd (yadd k1 (yscale 2 k2)) (yscale 2 k3)) k4)))))))))"

text \<open>
  \<^verbatim>\<open>Simulation._update_dipole\<close>. The result is the exception raised, if any, and the
  store as the call leaves it. \<open>saved_driving\<close> is the statement
  \<^verbatim>\<open>if self.save_E: E_driving = self._E_driving(t, dipole, True) else: E_driving = None\<close>,
  whose test holds for \<^verbatim>\<open>True\<close> only.
\<close>

definition saved_driving ::
  "env \<Rightarrow> simulation \<Rightarrow> world \<Rightarrow> real \<Rightarrow> nat \<Rightarrow> error + (vec3 \<times> vec3 \<times> vec3) option" where
  "saved_driving X self w t d =
    (if save_E self = Some True
     then (case E_driving_all X self w t d of Inl e \<Rightarrow> Inl e | Inr E \<Rightarrow> Inr (Some E))
     else Inr None)"

definition update_dipole ::
  "env \<Rightarrow> simulation \<Rightarrow> nat \<Rightarrow> nat \<Rightarrow> vec3 \<Rightarrow> vec3 \<Rightarrow> real \<Rightarrow> world \<Rightarrow> error option \<times> world" where
  "update_dipole X self tstep d moment_disp' moment_vel' max_vel w =
    (case dt self of
       None \<Rightarrow> (Some TypeError, w)
     | Some dt' \<Rightarrow>
    (let t = dt' * (real tstep + 1);
         moment_acc' = vdivs (vsub moment_vel' (moment_vel (dipole_at w d) tstep)) dt'
     in case saved_driving X self w t d of
          Inl e \<Rightarrow> (Some e, w)
        | Inr E_drv \<Rightarrow>
     (let w' = Dipole_update_timestep X d moment_disp' moment_vel' moment_acc' E_drv w;
          norm_vel = norm3 (velocity (charge_at w' (fst (charge_pair (dipole_at w' d))))
                             (tstep + 1))
      in if norm_vel > max_vel then (Some ValueError, w') else (None, w'))))"

section \<open>Orchestrator\<close>

text \<open>The two loops of \<^verbatim>\<open>Simulation._init_simulation\<close> over \<^verbatim>\<open>self.dipoles\<close>.\<close>

fun reset_dipoles :: "env \<Rightarrow> int \<Rightarrow> real \<Rightarrow> bool \<Rightarrow> nat list \<Rightarrow> world \<Rightarrow> world" where
  "reset_dipoles X timesteps' dt' save_E' [] w = w"
| "reset_dipoles X timesteps' dt' save_E' (d # rest) w =
     reset_dipoles X timesteps' dt' save_E' rest (Dipole_reset X d timesteps' dt' save_E' w)"

fun seed_driving :: "env \<Rightarrow> simulation \<Rightarrow> nat list \<Rightarrow> world \<Rightarrow> error option \<times> world" where
  "seed_driving X self [] w = (None, w)"
| "seed_driving X self (d # rest) w =
    (case E_driving_all X self w 0 d of
       Inl e \<Rightarrow> (Some e, w)
     | Inr E \<Rightarrow>
         seed_driving X self rest
           (w\<lparr>dipole_at := (dipole_at w)
                (d := (dipole_at w d)
                   \<lparr>E_total := (E_total (dipole_at w d))(0 := fst E),
                    E_vel := (E_vel (dipole_at w d))(0 := fst (snd E)),
                    E_acc := (E_acc (dipole_at w d))(0 := snd (snd E))\<rparr>)\<rparr>))"

definition init_simulation ::
  "env \<Rightarrow> simulation \<Rightarrow> world \<Rightarrow> int \<Rightarrow> real \<Rightarrow> bool \<Rightarrow> error option \<times> simulation \<times> world" where
  "init_simulation X self w timesteps' dt' save_E' =
    (let self' = self\<lparr>timesteps := Some timesteps', dt := Some dt', save_E := Some save_E'\<rparr>;
         w' = reset_dipoles X timesteps' dt' save_E' (dipoles self') w
     in if save_E'
        then (case seed_driving X self' (dipoles self') w' of (err, w'') \<Rightarrow> (err, self', w''))
        else (None, self', w'))"

text \<open>
  The loops of \<^verbatim>\<open>Simulation.run\<close>: over the dipoles within a timestep, and over the
  timesteps. An exception ends both.
\<close>

fun step_dipoles ::
  "env \<Rightarrow> simulation \<Rightarrow> real \<Rightarrow> nat \<Rightarrow> nat list \<Rightarrow> world \<Rightarrow> error option \<times> world" where
  "step_dipoles X self max_vel tstep [] w = (None, w)"
| "step_dipoles X self max_vel tstep (d # rest) w =
    (case rk4 X self w tstep d of
       Inl e \<Rightarrow> (Some e, w)
     | Inr y \<Rightarrow>
        (case update_dipole X self tstep d (fst y) (snd y) max_vel w of
           (Some e, w') \<Rightarrow> (Some e, w')
         | (None, w') \<Rightarrow> step_dipoles X self max_vel tstep rest w'))"

fun run_loop ::
  "env \<Rightarrow> simulation \<Rightarrow> real \<Rightarrow> nat list \<Rightarrow> world \<Rightarrow> error option \<times> world" where
  "run_loop X self max_vel [] w = (None, w)"
| "run_loop X self max_vel (tstep # rest) w =
    (case step_dipoles X self max_vel tstep (dipoles self) w of
       (Some e, w') \<Rightarrow> (Some e, w')
     | (None, w') \<Rightarrow> run_loop X self max_vel rest w')"

text \<open>
  \<^verbatim>\<open>Simulation.run\<close>; an argument \<open>None\<close> for \<open>max_vel\<close> stands for the default
  \<^verbatim>\<open>c/100\<close>. The result is the exception raised, if any, the simulation object and the
  store as the call leaves them.
\<close>

definition run ::
  "env \<Rightarrow> simulation \<Rightarrow> world \<Rightarrow> int \<Rightarrow> real \<Rightarrow> string option \<Rightarrow> bool \<Rightarrow> real option \<Rightarrow>
   error option \<times> simulation \<times> world" where
  "run X self w timesteps' dt' file save_E' max_vel' =
    (let max_vel = (case max_vel' of None \<Rightarrow> const_c / 100 | Some v \<Rightarrow> v)
     in case init_simulation X self w timesteps' dt' save_E' of
          (Some e, self1, w1) \<Rightarrow> (Some e, self1, w1)
        | (None, self1, w1) \<Rightarrow>
     (case (case file of None \<Rightarrow> (False, w1) | Some name \<Rightarrow> Simulation_load X self1 name w1) of
          (True, w2) \<Rightarrow> (None, self1, w2)
        | (False, w2) \<Rightarrow>
     (case run_loop X self1 max_vel [0..<nat (timesteps' - 1)] w2 of
          (Some e, w3) \<Rightarrow> (Some e, self1, w3)
        | (None, w3) \<Rightarrow>
            (None, self1,
             (case file of None \<Rightarrow> w3 | Some name \<Rightarrow> Simulation_save X self1 name w3)))))"

section \<open>Parallel variant\<close>

text \<open>
  One process of an MPI program: the communicator gives the number of processes, the
  rank of this one, and what \<^verbatim>\<open>bcast\<close> receives in a timestep from the process of a
  given rank. \<open>None\<close> for the communicator is the case where \<^verbatim>\<open>mpi4py\<close> cannot be
  imported.
\<close>

record mpi_comm =
  Get_size :: nat
  Get_rank :: nat
  bcast_recv :: "nat \<Rightarrow> nat \<Rightarrow> state23 list"

text \<open>The slice \<^verbatim>\<open>xs[start::step]\<close>.\<close>

definition slice_from :: "nat \<Rightarrow> nat \<Rightarrow> 'a list \<Rightarrow> 'a list" where
  "slice_from start step xs =
     map (\<lambda>i. xs ! i) (filter (\<lambda>i. start \<le> i \<and> (i - start) mod step = 0) [0..<length xs])"

fun process_dipoles_step ::
  "env \<Rightarrow> simulation \<Rightarrow> real \<Rightarrow> nat \<Rightarrow> nat list \<Rightarrow> state23 list \<Rightarrow> world \<Rightarrow>
   error option \<times> state23 list \<times> world" where
  "process_dipoles_step X self max_vel tstep [] moment_data w = (None, moment_data, w)"
| "process_dipoles_step X self max_vel tstep (d # rest) moment_data w =
    (case rk4 X self w tstep d of
       Inl e \<Rightarrow> (Some e, moment_data, w)
     | Inr y \<Rightarrow>
        (case update_dipole X self tstep d (fst y) (snd y) max_vel w of
           (Some e, w') \<Rightarrow> (Some e, moment_data, w')
         | (None, w') \<Rightarrow>
             process_dipoles_step X self max_vel tstep rest (moment_data @ [y]) w'))"

fun receive_dipoles ::
  "env \<Rightarrow> simulation \<Rightarrow> real \<Rightarrow> nat \<Rightarrow> (nat \<times> state23) list \<Rightarrow> world \<Rightarrow> error option \<times> world" where
  "receive_dipoles X self max_vel tstep [] w = (None, w)"
| "receive_dipoles X self max_vel tstep ((d, data) # rest) w =
    (case update_dipole X self tstep d (fst data) (snd data) max_vel w of
       (Some e, w') \<Rightarrow> (Some e, w')
     | (None, w') \<Rightarrow> receive_dipoles X self max_vel tstep rest w')"

fun bcast_loop ::
  "env \<Rightarrow> simulation \<Rightarrow> mpi_comm \<Rightarrow> real \<Rightarrow> nat \<Rightarrow> nat list \<Rightarrow> world \<Rightarrow> error option \<times> world" where
  "bcast_loop X self comm max_vel tstep [] w = (None, w)"
| "bcast_loop X self comm max_vel tstep (bcast_rank # rest) w =
    (if Get_rank comm = bcast_rank then bcast_loop X self comm max_vel tstep rest w
     else
       (case receive_dipoles X self max_vel tstep
               (zip (slice_from bcast_rank (Get_size comm) (dipoles self))
                    (bcast_recv comm tstep bcast_rank)) w of
          (Some e, w') \<Rightarrow> (Some e, w')
        | (None, w') \<Rightarrow> bcast_loop X self comm max_vel tstep rest w'))"

fun run_mpi_loop ::
  "env \<Rightarrow> simulation \<Rightarrow> mpi_comm \<Rightarrow> real \<Rightarrow> nat list \<Rightarrow> world \<Rightarrow> error option \<times> world" where
  "run_mpi_loop X self comm max_vel [] w = (None, w)"
| "run_mpi_loop X self comm max_vel (tstep # rest) w =
    (case process_dipoles_step X self max_vel tstep
            (slice_from (Get_rank comm) (Get_size comm) (dipoles self)) [] w of
       (Some e, moment_data, w') \<Rightarrow> (Some e, w')
     | (None, moment_data, w') \<Rightarrow>
        (case bcast_loop X self comm max_vel tstep [0..<Get_size comm] w' of
           (Some e, w'') \<Rightarrow> (Some e, w'')
         | (None, w'') \<Rightarrow> run_mpi_loop X self comm max_vel rest w''))"

text \<open>
  \<^verbatim>\<open>Simulation.run_mpi\<close>. The handler of ImportError builds a NotImplementedError and
  drops it (there is no \<^verbatim>\<open>raise\<close>), so the call goes on; the name \<^verbatim>\<open>MPI\<close> is then
  unbound where \<^verbatim>\<open>MPI.COMM_WORLD\<close> reads it.
\<close>

definition run_mpi ::
  "env \<Rightarrow> simulation \<Rightarrow> world \<Rightarrow> mpi_comm option \<Rightarrow> int \<Rightarrow> real \<Rightarrow> string option \<Rightarrow> bool \<Rightarrow>
   real option \<Rightarrow> error option \<times> simulation \<times> world" where
  "run_mpi X self w mpi timesteps' dt' file save_E' max_vel' =
    (let max_vel = (case max_vel' of None \<Rightarrow> const_c / 100 | Some v \<Rightarrow> v)
     in case init_simulation X self w timesteps' dt' save_E' of
          (Some e, self1, w1) \<Rightarrow> (Some e, self1, w1)
        | (None, self1, w1) \<Rightarrow>
     (case (case file of None \<Rightarrow> (False, w1) | Some name \<Rightarrow> Simulation_load X self1 name w1) of
          (True, w2) \<Rightarrow> (None, self1, w2)
        | (False, w2) \<Rightarrow>
     (case mpi of
          None \<Rightarrow> (Some UnboundLocalError, self1, w2)
        | Some comm \<Rightarrow>
     (case run_mpi_loop X self1 comm max_vel [0..<nat (timesteps' - 1)] w2 of
          (Some e, w3) \<Rightarrow> (Some e, self1, w3)
        | (None, w3) \<Rightarrow>
            (None, self1,
             (case file of
                None \<Rightarrow> w3
              | Some name \<Rightarrow>
                  if Get_rank comm = 0 then Simulation_save X self1 name w3 else w3))))))"

section \<open>Vocabulary of the properties\<close>

text \<open>The cross product of two vectors.\<close>

definition cross3 :: "vec3 \<Rightarrow> vec3 \<Rightarrow> vec3" where
  "cross3 a b = (fst (snd a) * snd (snd b) - snd (snd a) * fst (snd b),
                 snd (snd a) * fst b - fst a * snd (snd b),
                 fst a * fst (snd b) - fst (snd a) * fst b)"

text \<open>A vector field given by three arrays, as the list of its vectors, point by point.\<close>

definition points :: "field3 \<Rightarrow> vec3 list" where
  "points F = zip (fst F) (zip (fst (snd F)) (snd (snd F)))"

text \<open>The observation points minus the position of the charge at the times \<open>tr\<close>.\<close>

definition rel_position :: "charge \<Rightarrow> ndarray \<Rightarrow> ndarray \<Rightarrow> ndarray \<Rightarrow> ndarray \<Rightarrow> field3" where
  "rel_position ch tr x y z = (asub x (xpos ch tr), asub y (ypos ch tr), asub z (zpos ch tr))"

text \<open>
  The retarded time array of a charge as the four queries solve it, and the electric
  and the magnetic field of one charge as the loops of \<^verbatim>\<open>calculate_E\<close> and
  \<^verbatim>\<open>calculate_B\<close> add them.
\<close>

definition retarded_time :: "env \<Rightarrow> simulation \<Rightarrow> world \<Rightarrow> real \<Rightarrow> ndarray \<Rightarrow> ndarray \<Rightarrow> ndarray \<Rightarrow> nat \<Rightarrow> ndarray" where
  "retarded_time X self w t x y z c =
     newton X (\<lambda>tr. solve_time (charge_at w c) tr (full x t) x y z) (initial_guess x) (h self)"


definition charge_B :: "env \<Rightarrow> simulation \<Rightarrow> world \<Rightarrow> real \<Rightarrow> ndarray \<Rightarrow> ndarray \<Rightarrow> ndarray \<Rightarrow> string \<Rightarrow> nat \<Rightarrow> field3 option" where
  "charge_B X self w t x y z m c =
     map_option (B_terms (charge_at w c) (retarded_time X self w t x y z c) x y z)
       (calculate_individual_E (charge_at w c) (retarded_time X self w t x y z c) x y z m)"

text \<open>
  The magnetic field at one point from the relative position \<open>r\<close> and the electric field
  \<open>e\<close> there: \<open>B_point\<close> is \<open>(1/(c|r|)) (r \<times> e)\<close>, and \<open>B_point_claimed\<close> is the formula
  \<open>(1/(c|r|)) (r\<^sub>u \<times> e)\<close> with the unit vector \<open>r\<^sub>u\<close> of \<open>r\<close>.
\<close>

definition B_point :: "vec3 \<Rightarrow> vec3 \<Rightarrow> vec3" where
  "B_point r e = vscale (1 / (const_c * norm3 r)) (cross3 r e)"

definition B_point_claimed :: "vec3 \<Rightarrow> vec3 \<Rightarrow> vec3" where
  "B_point_claimed r e = vscale (1 / (const_c * norm3 r)) (cross3 (vscale (1 / norm3 r) r) e)"

text \<open>
  The right-hand side of the oscillator equation under a given driving field, and one
  step of the fourth-order Runge-Kutta scheme in which the four stages are driven by
  the fields \<open>E1\<close>, \<open>E2\<close>, \<open>E3\<close>, \<open>E4\<close>. A forcing held constant across the stages is
  the scheme with four times the same field.
\<close>

definition LO_rhs :: "dipole \<Rightarrow> vec3 \<Rightarrow> state23 \<Rightarrow> state23" where
  "LO_rhs dipole E y =
     (snd y,
      vsub (vsub (vscale (dq dipole / m_eff dipole) E) (vscale (gamma_0 dipole) (snd y)))
           (vscale ((omega_0 dipole)\<^sup>2) (fst y)))"

definition rk4_with_forcing ::
  "dipole \<Rightarrow> real \<Rightarrow> state23 \<Rightarrow> vec3 \<Rightarrow> vec3 \<Rightarrow> vec3 \<Rightarrow> vec3 \<Rightarrow> state23" where
  "rk4_with_forcing dipole step y E1 E2 E3 E4 =
    (let k1 = yscale step (LO_rhs dipole E1 y);
         k2 = yscale step (LO_rhs dipole E2 (yadd y (ydivs k1 2)));
         k3 = yscale step (LO_rhs dipole E3 (yadd y (ydivs k2 2)));
         k4 = yscale step (LO_rhs dipole E4 (yadd y k3))
     in yadd y (yscale (1 / 6) (yadd (yadd (yadd k1 (yscale 2 k2)) (yscale 2 k3)) k4)))"

text \<open>
  The two member charges of every dipole of the simulation are in \<^verbatim>\<open>all_charges\<close>:
  \<open>members_in_list\<close> in the sense of Python's \<^verbatim>\<open>in\<close> (the same object as an element, or
  equal to one), \<open>members_listed\<close> as the very objects that the list holds and the
  field loops read.
\<close>

definition members_in_list :: "env \<Rightarrow> simulation \<Rightarrow> world \<Rightarrow> bool" where
  "members_in_list X self w =
     list_all (\<lambda>d. py_in X w (fst (charge_pair (dipole_at w d))) (all_charges self) \<and>
                    py_in X w (snd (charge_pair (dipole_at w d))) (all_charges self))
       (dipoles self)"

definition members_listed :: "simulation \<Rightarrow> world \<Rightarrow> bool" where
  "members_listed self w =
     list_all (\<lambda>d. fst (charge_pair (dipole_at w d)) \<in> set (all_charges self) \<and>
                    snd (charge_pair (dipole_at w d)) \<in> set (all_charges self))
       (dipoles self)"

text \<open>
  \<^verbatim>\<open>Dipole.reset\<close> and \<^verbatim>\<open>Dipole.update_timestep\<close> leave the attribute \<^verbatim>\<open>charge_pair\<close> of
  every dipole bound to the same two objects; \<open>pairs_kept\<close> says so of two stores.
\<close>

definition keeps_charge_pair :: "env \<Rightarrow> bool" where
  "keeps_charge_pair X =
    ((\<forall>d n step s w d'.
        charge_pair (dipole_at (Dipole_reset X d n step s w) d') = charge_pair (dipole_at w d')) \<and>
     (\<forall>d md mv ma E w d'.
        charge_pair (dipole_at (Dipole_update_timestep X d md mv ma E w) d')
          = charge_pair (dipole_at w d')))"

definition pairs_kept :: "world \<Rightarrow> world \<Rightarrow> bool" where
  "pairs_kept w w' = (\<forall>d. charge_pair (dipole_at w' d) = charge_pair (dipole_at w d))"

section \<open>Concrete objects\<close>

text \<open>
  Objects on which the definitions are evaluated: a charge at rest at the origin, a
  dipole at rest, a store holding them, and an environment whose root finder returns
  its starting point, whose charges compare by identity and whose dipole methods
  leave the store as it is.
\<close>

definition still_charge :: charge where
  "still_charge = \<lparr>q = 1, xpos = zeros, ypos = zeros, zpos = zeros,
     xvel = zeros, yvel = zeros, zvel = zeros, xacc = zeros, yacc = zeros, zacc = zeros,
     solve_time = (\<lambda>tr t x y z. asub (asqrt (aadd (aadd (asqr x) (asqr y)) (asqr z)))
                    (smul const_c (asub t tr))),
     velocity = (\<lambda>k. (0, 0, 0))\<rparr>"

definition plain_dipole :: dipole where
  "plain_dipole = \<lparr>charge_pair = (0, 1), t_index = 0, dq = 1, m_eff = 1, gamma_0 = 0, omega_0 = 0,
     polar_dir = (1, 0, 0), origin = (\<lambda>t. (0, 0, 0)),
     moment_disp = (\<lambda>k. (0, 0, 0)), moment_vel = (\<lambda>k. (0, 0, 0)),
     moment_acc = (\<lambda>k. (0, 0, 0)), E_total = (\<lambda>k. (0, 0, 0)), E_vel = (\<lambda>k. (0, 0, 0)),
     E_acc = (\<lambda>k. (0, 0, 0))\<rparr>"

definition world0 :: world where
  "world0 = \<lparr>charge_at = (\<lambda>r. still_charge), dipole_at = (\<lambda>r. plain_dipole),
     files = (\<lambda>name. None)\<rparr>"

definition env0 :: env where
  "env0 = \<lparr>newton = (\<lambda>f x0 tol. x0), Charge_eq = (\<lambda>a b. False),
     Dipole_reset = (\<lambda>d n s e w. w),
     Dipole_update_timestep = (\<lambda>d md mv ma E w. w),
     pickle_dump = (\<lambda>s w. (PySimulation s, w))\<rparr>"

text \<open>An external field of strength 1 along x, and a simulation with no source.\<close>

definition unit_field :: field_callable where
  "unit_field t x y z = (full x 1, zeros x, zeros x)"


text \<open>A simulation whose only source is the charge of reference 0.\<close>

definition sim_one :: simulation where
  "sim_one = \<lparr>E_field = None, B_field = None, h = 1 / 10 ^ 22,
     all_charges = [0], dipoles = [], timesteps = None, dt = None, save_E = None\<rparr>"



text \<open>A charge moving along y at 1 m/s, with y = t, and a store of such charges.\<close>

definition crossing_charge :: charge where
  "crossing_charge = \<lparr>q = 1, xpos = zeros, ypos = (\<lambda>tr. tr), zpos = zeros,
     xvel = zeros, yvel = (\<lambda>tr. full tr 1), zvel = zeros,
     xacc = zeros, yacc = zeros, zacc = zeros,
     solve_time = (\<lambda>tr t x y z.
        asub (asqrt (aadd (aadd (asqr x) (asqr (asub y tr))) (asqr z)))
             (smul const_c (asub t tr))),
     velocity = (\<lambda>k. (0, 1, 0))\<rparr>"

definition world_cross :: world where
  "world_cross = \<lparr>charge_at = (\<lambda>r. crossing_charge), dipole_at = (\<lambda>r. plain_dipole),
     files = (\<lambda>name. None)\<rparr>"

text \<open>
  An external E field along x that grows with time, and a simulation of the dipole of
  reference 0, whose charges are those of references 0 and 1, after \<^verbatim>\<open>_init_simulation\<close>
  with three timesteps of 1 s.
\<close>

definition ramp_field :: field_callable where
  "ramp_field t x y z = (full x t, zeros x, zeros x)"

definition sim_ramp :: simulation where
  "sim_ramp = \<lparr>E_field = Some ramp_field, B_field = None, h = 1 / 10 ^ 22,
     all_charges = [0, 1], dipoles = [0], timesteps = Some 3, dt = Some 1,
     save_E = Some False\<rparr>"

text \<open>
  Modelled from the spec: \<^verbatim>\<open>Dipole.reset\<close> and \<^verbatim>\<open>Dipole.update_timestep\<close> (dipole.py is
  not among the sources). The reset starts the timestep index again. The update writes
  the next column of the moment arrays and of the velocity arrays of the two member
  charges, which sit at the origin plus and minus half the displacement: their
  velocities are the velocity \<open>drift\<close> of the origin plus and minus half the moment
  velocity.
\<close>

definition example_reset :: "nat \<Rightarrow> int \<Rightarrow> real \<Rightarrow> bool \<Rightarrow> world \<Rightarrow> world" where
  "example_reset d n step s w = w\<lparr>dipole_at := (dipole_at w)(d := (dipole_at w d)\<lparr>t_index := 0\<rparr>)\<rparr>"

definition example_update_timestep ::
  "vec3 \<Rightarrow> nat \<Rightarrow> vec3 \<Rightarrow> vec3 \<Rightarrow> vec3 \<Rightarrow> (vec3 \<times> vec3 \<times> vec3) option \<Rightarrow> world \<Rightarrow> world" where
  "example_update_timestep drift d md mv ma E w =
    (let dipole = dipole_at w d;
         k = t_index dipole + 1;
         c0 = fst (charge_pair dipole);
         c1 = snd (charge_pair dipole);
         w1 = w\<lparr>dipole_at := (dipole_at w)
                (d := dipole\<lparr>t_index := k,
                             moment_disp := (moment_disp dipole)(k := md),
                             moment_vel := (moment_vel dipole)(k := mv),
                             moment_acc := (moment_acc dipole)(k := ma)\<rparr>)\<rparr>;
         w2 = w1\<lparr>charge_at := (charge_at w1)
                (c0 := (charge_at w1 c0)
                   \<lparr>velocity := (velocity (charge_at w1 c0))(k := vadd drift (vdivs mv 2))\<rparr>)\<rparr>
     in w2\<lparr>charge_at := (charge_at w2)
                (c1 := (charge_at w2 c1)
                   \<lparr>velocity := (velocity (charge_at w2 c1))(k := vsub drift (vdivs mv 2))\<rparr>)\<rparr>)"

text \<open>
  An environment with these methods, in which charges are equal when their \<open>q\<close> is; a
  dipole whose origin moves along x at 1 m/s with the moment velocity \<open>v\<close> at timestep
  0; a stored run; a store in which the dipole of reference 0 has the charges 0 and 1,
  both at the origin, the dipole of the stored run has the charges 2, at x = 1, and 3,
  at the origin, and the file \<^verbatim>\<open>runs.dat\<close> holds the stored run; the simulation built
  from the dipole 0.
\<close>

definition env_moving :: "vec3 \<Rightarrow> env" where
  "env_moving drift = \<lparr>newton = (\<lambda>f x0 tol. x0), Charge_eq = (\<lambda>a b. q a = q b),
     Dipole_reset = example_reset,
     Dipole_update_timestep = example_update_timestep drift,
     pickle_dump = (\<lambda>s w. (PySimulation s, w))\<rparr>"

definition moving_dipole :: "vec3 \<Rightarrow> dipole" where
  "moving_dipole v = plain_dipole\<lparr>origin := (\<lambda>t. (t, 0, 0)),
     moment_vel := (\<lambda>k. if k = 0 then v else (0, 0, 0))\<rparr>"

definition stored_run :: simulation where
  "stored_run = \<lparr>E_field = Some unit_field, B_field = None, h = 1 / 10 ^ 20,
     all_charges = [2, 3], dipoles = [1], timesteps = Some 2, dt = Some 1,
     save_E = Some False\<rparr>"

definition world_pair :: "vec3 \<Rightarrow> world" where
  "world_pair v = \<lparr>charge_at = (\<lambda>r. if r = 2 then still_charge\<lparr>xpos := (\<lambda>tr. full tr 1)\<rparr>
                                   else still_charge\<lparr>q := (if even r then 1 else - 1)\<rparr>),
     dipole_at = (\<lambda>r. if r = 0 then moving_dipole v
                       else (moving_dipole v)\<lparr>charge_pair := (2, 3)\<rparr>),
     files = (\<lambda>name. if name = ''runs.dat'' then Some [PySimulation stored_run] else None)\<rparr>"

definition sim_pair :: simulation where
  "sim_pair = \<lparr>E_field = None, B_field = None, h = 1 / 10 ^ 22,
     all_charges = [0, 1], dipoles = [0], timesteps = None, dt = None, save_E = None\<rparr>"


section \<open>Array arithmetic\<close>








section \<open>The three selectors\<close>



lemma individual_E_unknown:
  "m \<notin> {''Velocity'', ''Acceleration'', ''Total''} \<Longrightarrow> calculate_individual_E ch tr x y z m = None"
  by (simp add: calculate_individual_E_def Let_def)

lemma individual_E_known:
  "m \<in> {''Velocity'', ''Acceleration'', ''Total''} \<Longrightarrow> calculate_individual_E ch tr x y z m \<noteq> None"
  by (auto simp add: calculate_individual_E_def Let_def)

lemma E_loop_unknown:
  "m \<notin> {''Velocity'', ''Acceleration'', ''Total''} \<Longrightarrow> c \<in> set cs \<Longrightarrow> \<not> excluded X w ex c \<Longrightarrow>
   calculate_E_loop X self w ta x y z m ex cs E = Inl TypeError"
  by (induction cs arbitrary: E) (auto simp: individual_E_unknown Let_def)

lemma B_loop_unknown:
  "m \<notin> {''Velocity'', ''Acceleration'', ''Total''} \<Longrightarrow> c \<in> set cs \<Longrightarrow> \<not> excluded X w ex c \<Longrightarrow>
   calculate_B_loop X self w ta x y z m ex cs E = Inl TypeError"
  by (induction cs arbitrary: E) (auto simp: individual_E_unknown Let_def)




section \<open>The calls of the root finder\<close>

lemma initial_guess_full: "initial_guess x = full x (- 1 / 10 ^ 12)"
  by (simp add: initial_guess_def smul_def full_def)

lemma excluded_newton [simp]: "excluded (X\<lparr>newton := N\<rparr>) w ex c = excluded X w ex c"
  by (simp add: excluded_def py_in_def split: option.splits)





section \<open>The magnetic field of one charge\<close>

lemma length_array_ops:
  "length (aadd a b) = min (length a) (length b)"
  "length (asub a b) = min (length a) (length b)"
  "length (amul a b) = min (length a) (length b)"
  "length (adiv a b) = min (length a) (length b)"
  "length (smul s a) = length a"
  "length (ssub s a) = length a"
  "length (sdiv s a) = length a"
  "length (divs a s) = length a"
  "length (asqr a) = length a"
  "length (acube a) = length a"
  "length (asqrt a) = length a"
  by (simp_all add: aadd_def asub_def amul_def adiv_def smul_def ssub_def sdiv_def divs_def
      asqr_def acube_def asqrt_def)

lemma nth_array_ops:
  "i < length a \<Longrightarrow> i < length b \<Longrightarrow> aadd a b ! i = a ! i + b ! i"
  "i < length a \<Longrightarrow> i < length b \<Longrightarrow> asub a b ! i = a ! i - b ! i"
  "i < length a \<Longrightarrow> i < length b \<Longrightarrow> amul a b ! i = a ! i * b ! i"
  "i < length a \<Longrightarrow> i < length b \<Longrightarrow> adiv a b ! i = a ! i / b ! i"
  "i < length a \<Longrightarrow> smul s a ! i = s * a ! i"
  "i < length a \<Longrightarrow> ssub s a ! i = s - a ! i"
  "i < length a \<Longrightarrow> sdiv s a ! i = s / a ! i"
  "i < length a \<Longrightarrow> divs a s ! i = a ! i / s"
  "i < length a \<Longrightarrow> asqr a ! i = (a ! i)\<^sup>2"
  "i < length a \<Longrightarrow> acube a ! i = (a ! i) ^ 3"
  "i < length a \<Longrightarrow> asqrt a ! i = sqrt (a ! i)"
  by (simp_all add: aadd_def asub_def amul_def adiv_def smul_def ssub_def sdiv_def divs_def
      asqr_def acube_def asqrt_def)

lemma points_B_terms:
  "points (B_terms ch tr x y z E) = map2 B_point (points (rel_position ch tr x y z)) (points E)"
proof (cases E)
  case (fields E_x E_y E_z)
  have len: "length (points (B_terms ch tr x y z E))
      = length (map2 B_point (points (rel_position ch tr x y z)) (points E))"
    unfolding fields
    by (simp add: B_terms_def points_def rel_position_def Let_def length_array_ops)
       (simp only: min.assoc min.left_commute min.commute min.left_idem min.idem)
  have nth: "points (B_terms ch tr x y z E) ! i
      = map2 B_point (points (rel_position ch tr x y z)) (points E) ! i"
    if "i < length (map2 B_point (points (rel_position ch tr x y z)) (points E))" for i
  proof -
    from that have b: "i < length x" "i < length (xpos ch tr)" "i < length y"
      "i < length (ypos ch tr)" "i < length z" "i < length (zpos ch tr)"
      "i < length E_x" "i < length E_y" "i < length E_z"
      unfolding fields by (simp_all add: points_def rel_position_def length_array_ops)
    then show ?thesis unfolding fields
      by (simp add: B_terms_def points_def rel_position_def B_point_def Let_def
        length_array_ops nth_array_ops vscale_def cross3_def norm3_def)
  qed
  from len nth show ?thesis by (simp add: list_eq_iff_nth_eq)
qed

lemma B_point_unit:
  "B_point r e = vscale (1 / const_c) (cross3 (vscale (1 / norm3 r) r) e)"
  by (simp add: B_point_def vscale_def cross3_def algebra_simps)

lemma B_loop_fold:
  "m \<in> {''Velocity'', ''Acceleration'', ''Total''} \<Longrightarrow>
   \<exists>Bs. map (charge_B X self w t x y z m) (filter (\<lambda>c. \<not> excluded X w ex c) cs) = map Some Bs \<and>
        calculate_B_loop X self w (full x t) x y z m ex cs B0 = Inr (foldl add3 B0 Bs)"
proof (induction cs arbitrary: B0)
  case Nil
  show ?case by simp
next
  case (Cons c cs)
  show ?case
  proof (cases "excluded X w ex c")
    case True
    with Cons.IH [OF Cons.prems, of B0] show ?thesis by simp
  next
    case False
    from Cons.prems obtain E where
      E: "calculate_individual_E (charge_at w c) (retarded_time X self w t x y z c) x y z m = Some E"
      using individual_E_known [OF Cons.prems, of "charge_at w c" "retarded_time X self w t x y z c" x y z]
      by auto
    let ?B = "B_terms (charge_at w c) (retarded_time X self w t x y z c) x y z E"
    from Cons.IH [OF Cons.prems, of "add3 B0 ?B"] obtain Bs where
      Bs: "map (charge_B X self w t x y z m) (filter (\<lambda>c. \<not> excluded X w ex c) cs) = map Some Bs"
        "calculate_B_loop X self w (full x t) x y z m ex cs (add3 B0 ?B) = Inr (foldl add3 (add3 B0 ?B) Bs)"
      by blast
    have "map (charge_B X self w t x y z m) (filter (\<lambda>c. \<not> excluded X w ex c) (c # cs)) = map Some (?B # Bs)"
      using False Bs(1) E by (simp add: charge_B_def)
    moreover have "calculate_B_loop X self w (full x t) x y z m ex (c # cs) B0 = Inr (foldl add3 B0 (?B # Bs))"
      using False Bs(2) E by (simp add: retarded_time_def Let_def)
    ultimately show ?thesis by blast
  qed
qed

section \<open>The integrator\<close>

lemma LO_equation_rhs:
  "LO_equation X self w t y d =
     (case E_driving X self w t d of Inl e \<Rightarrow> Inl e | Inr E \<Rightarrow> Inr (LO_rhs (dipole_at w d) E y))"
  by (simp add: LO_equation_def LO_rhs_def split: sum.splits)

lemma E_driving_ramp: "E_driving env0 sim_ramp world0 t 0 = Inr (t, 0, 0)"
  by (simp add: E_driving_def calculate_E_def sim_ramp_def world0_def plain_dipole_def env0_def
      excluded_def py_in_def add_external_def ramp_field_def full_def zeros_def aadd_def
      flatten3_def times_polar_def Let_def)

section \<open>What a run leaves unchanged\<close>

lemma pairs_kept_refl: "pairs_kept w w"
  by (simp add: pairs_kept_def)

lemma pairs_kept_trans: "pairs_kept w w' \<Longrightarrow> pairs_kept w' w'' \<Longrightarrow> pairs_kept w w''"
  by (simp add: pairs_kept_def)

lemma init_sources_listed:
  "\<forall>d\<in>set (snd both). fst (charge_pair (dipole_at w d)) \<in> set (fst both) \<and>
                       snd (charge_pair (dipole_at w d)) \<in> set (fst both) \<Longrightarrow>
   \<forall>d\<in>set (snd (init_sources w srcs both)).
      fst (charge_pair (dipole_at w d)) \<in> set (fst (init_sources w srcs both)) \<and>
      snd (charge_pair (dipole_at w d)) \<in> set (fst (init_sources w srcs both))"
  by (induction w srcs both rule: init_sources.induct) auto

lemma reset_dipoles_kept:
  "keeps_charge_pair X \<Longrightarrow> pairs_kept w (reset_dipoles X n step s ds w)"
proof (induction ds arbitrary: w)
  case Nil
  show ?case by (simp add: pairs_kept_refl)
next
  case (Cons d ds)
  have "pairs_kept w (Dipole_reset X d n step s w)"
    using Cons.prems by (simp add: keeps_charge_pair_def pairs_kept_def)
  with Cons.IH [OF Cons.prems, of "Dipole_reset X d n step s w"] show ?case
    by (auto intro: pairs_kept_trans)
qed

lemma seed_driving_kept: "pairs_kept w (snd (seed_driving X self ds w))"
proof (induction ds arbitrary: w)
  case Nil
  show ?case by (simp add: pairs_kept_refl)
next
  case (Cons d ds)
  show ?case
  proof (cases "E_driving_all X self w 0 d")
    case (Inl e)
    then show ?thesis by (simp add: pairs_kept_refl)
  next
    case (Inr E)
    let ?w = "w\<lparr>dipole_at := (dipole_at w)
                (d := (dipole_at w d)
                   \<lparr>E_total := (E_total (dipole_at w d))(0 := fst E),
                    E_vel := (E_vel (dipole_at w d))(0 := fst (snd E)),
                    E_acc := (E_acc (dipole_at w d))(0 := snd (snd E))\<rparr>)\<rparr>"
    have "pairs_kept w ?w" by (simp add: pairs_kept_def)
    with Cons.IH [of ?w] Inr show ?thesis by (auto intro: pairs_kept_trans)
  qed
qed

lemma update_dipole_kept:
  assumes "keeps_charge_pair X"
  shows "pairs_kept w (snd (update_dipole X self k d md mv mx w))"
proof -
  have u: "pairs_kept w (Dipole_update_timestep X d md mv ma E w)" for ma E
    using assms unfolding keeps_charge_pair_def pairs_kept_def by blast
  show ?thesis
    by (simp add: update_dipole_def Let_def u pairs_kept_refl split: option.splits sum.splits)
qed

lemma step_dipoles_kept:
  "keeps_charge_pair X \<Longrightarrow> pairs_kept w (snd (step_dipoles X self mx k ds w))"
proof (induction ds arbitrary: w)
  case Nil
  show ?case by (simp add: pairs_kept_refl)
next
  case (Cons d ds)
  show ?case
  proof (cases "rk4 X self w k d")
    case (Inl e)
    then show ?thesis by (simp add: pairs_kept_refl)
  next
    case (Inr y)
    obtain r w' where u: "update_dipole X self k d (fst y) (snd y) mx w = (r, w')"
      by (cases "update_dipole X self k d (fst y) (snd y) mx w")
    with update_dipole_kept [OF Cons.prems, of w self k d "fst y" "snd y" mx]
    have k1: "pairs_kept w w'" by simp
    show ?thesis
    proof (cases r)
      case None
      with Inr u k1 Cons.IH [OF Cons.prems, of w'] show ?thesis
        by (auto intro: pairs_kept_trans)
    next
      case (Some e)
      with Inr u k1 show ?thesis by simp
    qed
  qed
qed

lemma run_loop_kept:
  "keeps_charge_pair X \<Longrightarrow> pairs_kept w (snd (run_loop X self mx ks w))"
proof (induction ks arbitrary: w)
  case Nil
  show ?case by (simp add: pairs_kept_refl)
next
  case (Cons k ks)
  obtain r w' where u: "step_dipoles X self mx k (dipoles self) w = (r, w')"
    by (cases "step_dipoles X self mx k (dipoles self) w")
  with step_dipoles_kept [OF Cons.prems, of w self mx k "dipoles self"]
  have k1: "pairs_kept w w'" by simp
  show ?case
  proof (cases r)
    case None
    with u k1 Cons.IH [OF Cons.prems, of w'] show ?thesis
      by (auto intro: pairs_kept_trans)
  next
    case (Some e)
    with u k1 show ?thesis by simp
  qed
qed

lemma init_simulation_kept:
  assumes "keeps_charge_pair X"
  shows "pairs_kept w (snd (snd (init_simulation X self w n step s)))"
    and "all_charges (fst (snd (init_simulation X self w n step s))) = all_charges self"
    and "dipoles (fst (snd (init_simulation X self w n step s))) = dipoles self"
proof -
  let ?self = "self\<lparr>timesteps := Some n, dt := Some step, save_E := Some s\<rparr>"
  let ?w = "reset_dipoles X n step s (dipoles self) w"
  have a: "pairs_kept w ?w" by (rule reset_dipoles_kept [OF assms])
  have b: "pairs_kept ?w (snd (seed_driving X ?self (dipoles self) ?w))"
    by (rule seed_driving_kept)
  from a b show "pairs_kept w (snd (snd (init_simulation X self w n step s)))"
    by (auto simp: init_simulation_def Let_def split: prod.splits intro: pairs_kept_trans)
  show "all_charges (fst (snd (init_simulation X self w n step s))) = all_charges self"
    by (simp add: init_simulation_def Let_def split: prod.splits)
  show "dipoles (fst (snd (init_simulation X self w n step s))) = dipoles self"
    by (simp add: init_simulation_def Let_def split: prod.splits)
qed

lemma members_listed_kept:
  "pairs_kept w w' \<Longrightarrow> all_charges self' = all_charges self \<Longrightarrow> dipoles self' = dipoles self \<Longrightarrow>
   members_listed self w \<Longrightarrow> members_listed self' w'"
  by (simp add: members_listed_def pairs_kept_def)

lemma keeps_charge_pair_example: "keeps_charge_pair (env_moving drift)"
  by (simp add: keeps_charge_pair_def env_moving_def example_reset_def
      example_update_timestep_def Let_def del: split_paired_All)

lemma members_listed_integrating_run:
  assumes X: "keeps_charge_pair X" and m: "members_listed self w"
  shows "members_listed (fst (snd (run X self w n step None s mx)))
        (snd (snd (run X self w n step None s mx)))"
proof -
  obtain e1 self1 w1 where i: "init_simulation X self w n step s = (e1, self1, w1)"
    by (cases "init_simulation X self w n step s")
  with init_simulation_kept [OF X, where w = w and self = self and n = n and step = step and s = s]
  have k1: "pairs_kept w w1" "all_charges self1 = all_charges self" "dipoles self1 = dipoles self"
    by simp_all
  let ?mx = "case mx of None \<Rightarrow> const_c / 100 | Some v \<Rightarrow> v"
  obtain e3 w3 where l: "run_loop X self1 ?mx [0..<nat (n - 1)] w1 = (e3, w3)"
    by (cases "run_loop X self1 ?mx [0..<nat (n - 1)] w1")
  with run_loop_kept [OF X, where w = w1 and self = self1 and mx = ?mx and ks = "[0..<nat (n - 1)]"]
  have "pairs_kept w1 w3" by simp
  with k1 have k3: "pairs_kept w w3" by (auto intro: pairs_kept_trans)
  have r: "run X self w n step None s mx = (if e1 = None then (e3, self1, w3) else (e1, self1, w1))"
    using i l by (cases e1; cases e3) (simp_all add: run_def Let_def)
  from k1 k3 m show ?thesis
    by (auto simp: r intro: members_listed_kept)
qed

section \<open>The loops of a run\<close>

lemma run_loop_append:
  "run_loop X self mx (ks @ ks') w =
     (case run_loop X self mx ks w of
        (Some e, w') \<Rightarrow> (Some e, w')
      | (None, w') \<Rightarrow> run_loop X self mx ks' w')"
  by (induction ks arbitrary: w) (auto split: prod.splits option.splits)

lemma step_dipoles_append:
  "step_dipoles X self mx k (ds @ ds') w =
     (case step_dipoles X self mx k ds w of
        (Some e, w') \<Rightarrow> (Some e, w')
      | (None, w') \<Rightarrow> step_dipoles X self mx k ds' w')"
  by (induction ds arbitrary: w) (auto split: prod.splits option.splits sum.splits)

lemma E_driving_pair_steps:
  "E_driving (env_moving drift) (sim_pair\<lparr>timesteps := Some n, dt := Some 1, save_E := Some False\<rparr>)
     (world_pair v) t 0 = Inr (0, 0, 0)"
  by (simp add: E_driving_def calculate_E_def sim_pair_def world_pair_def
      moving_dipole_def plain_dipole_def env_moving_def excluded_def py_in_def
      add_external_def full_def zeros_def flatten3_def times_polar_def Let_def)

lemma rk4_pair_steps:
  "rk4 (env_moving drift) (sim_pair\<lparr>timesteps := Some n, dt := Some 1, save_E := Some False\<rparr>)
     (world_pair (a, 0, 0)) 0 0 = Inr ((a, 0, 0), (a, 0, 0))"
proof -
  have s: "dt (sim_pair\<lparr>timesteps := Some n, dt := Some 1, save_E := Some False\<rparr>) = Some 1" by simp
  have d: "dipole_at (world_pair (a, 0, 0)) 0 = moving_dipole (a, 0, 0)"
    by (simp add: world_pair_def)
  show ?thesis
    by (simp add: rk4_def s d LO_equation_rhs E_driving_pair_steps LO_rhs_def moving_dipole_def
        plain_dipole_def yadd_def yscale_def ydivs_def vadd_def vsub_def vscale_def vdivs_def
        Let_def del: simulation.simps)
qed

lemma reset_pair:
  "Dipole_reset (env_moving drift) 0 n step s (world_pair v) = world_pair v"
  by (simp add: env_moving_def example_reset_def world_pair_def moving_dipole_def
      plain_dipole_def fun_eq_iff)

lemma update_pair_steps:
  "update_dipole (env_moving (1, 0, 0))
     (sim_pair\<lparr>timesteps := Some n, dt := Some 1, save_E := Some False\<rparr>) 0 0 (a, 0, 0) (a, 0, 0) mx
     (world_pair (a, 0, 0))
   = (if mx < \<bar>1 + a / 2\<bar> then Some ValueError else None,
      example_update_timestep (1, 0, 0) 0 (a, 0, 0) (a, 0, 0) (0, 0, 0) None (world_pair (a, 0, 0)))"
proof -
  have m: "moment_vel (dipole_at (world_pair (a, 0, 0)) 0) 0 = (a, 0, 0)"
    by (simp add: world_pair_def moving_dipole_def)
  have n: "norm3 (velocity (charge_at (example_update_timestep (1, 0, 0) 0 (a, 0, 0) (a, 0, 0) (0, 0, 0) None (world_pair (a, 0, 0))) (fst (charge_pair (dipole_at (example_update_timestep (1, 0, 0) 0 (a, 0, 0) (a, 0, 0) (0, 0, 0) None (world_pair (a, 0, 0))) 0)))) (Suc 0)) = \<bar>1 + a / 2\<bar>"
    by (simp add: example_update_timestep_def world_pair_def moving_dipole_def plain_dipole_def
        Let_def vadd_def vsub_def vdivs_def norm3_def)
  show ?thesis
    using n by (simp add: update_dipole_def m saved_driving_def Let_def vsub_def vdivs_def
        env_moving_def)
qed

lemma run_pair_steps:
  "run (env_moving (1, 0, 0)) sim_pair (world_pair (a, 0, 0)) 2 1 None False (Some mx)
   = (if mx < \<bar>1 + a / 2\<bar> then Some ValueError else None,
      sim_pair\<lparr>timesteps := Some 2, dt := Some 1, save_E := Some False\<rparr>,
      example_update_timestep (1, 0, 0) 0 (a, 0, 0) (a, 0, 0) (0, 0, 0) None (world_pair (a, 0, 0)))"
proof -
  have t: "dipoles sim_pair = [0]" by (simp add: sim_pair_def)
  show ?thesis
    by (simp add: run_def init_simulation_def Let_def reset_pair t rk4_pair_steps update_pair_steps
        del: simulation.simps)
qed

lemma run_pair_raises:
  "run (env_moving (1, 0, 0)) sim_pair (world_pair (2, 0, 0)) (2 + int j) 1 None False (Some 1)
   = (Some ValueError,
      sim_pair\<lparr>timesteps := Some (2 + int j), dt := Some 1, save_E := Some False\<rparr>,
      example_update_timestep (1, 0, 0) 0 (2, 0, 0) (2, 0, 0) (0, 0, 0) None (world_pair (2, 0, 0)))"
proof -
  have t: "dipoles sim_pair = [0]" by (simp add: sim_pair_def)
  have k: "[0..<nat (1 + int j)] = 0 # [Suc 0..<Suc j]"
    by (simp add: nat_add_distrib upt_rec)
  show ?thesis
    by (simp add: run_def init_simulation_def Let_def reset_pair t rk4_pair_steps update_pair_steps k
        del: simulation.simps upt_Suc)
qed

lemma run_stops_at_first_member:
  assumes "init_simulation X self w n step s = (None, self1, w0)"
    and "k < nat (n - 1)"
    and "run_loop X self1 mx [0..<k] w0 = (None, w1)"
    and "dipoles self1 = dpre @ d # dpost"
    and "step_dipoles X self1 mx k dpre w1 = (None, w2)"
    and "rk4 X self1 w2 k d = Inr y"
    and "saved_driving X self1 w2 (step * (real k + 1)) d = Inr Edrv"
    and "w3 = Dipole_update_timestep X d (fst y) (snd y)
           (vdivs (vsub (snd y) (moment_vel (dipole_at w2 d) k)) step) Edrv w2"
    and "mx < norm3 (velocity (charge_at w3 (fst (charge_pair (dipole_at w3 d)))) (k + 1))"
  shows "run X self w n step None s (Some mx) = (Some ValueError, self1, w3)"
proof -
  have dt: "dt self1 = Some step"
    using assms(1) by (auto simp: init_simulation_def Let_def split: if_splits prod.splits)
  have u: "update_dipole X self1 k d (fst y) (snd y) mx w2 = (Some ValueError, w3)"
    using dt assms(7,8,9) by (simp add: update_dipole_def Let_def)
  have "step_dipoles X self1 mx k (d # dpost) w2 = (Some ValueError, w3)"
    using assms(6) u by simp
  then have "step_dipoles X self1 mx k (dipoles self1) w1 = (Some ValueError, w3)"
    using assms(4,5) by (simp add: step_dipoles_append)
  then have "run_loop X self1 mx (k # [Suc k..<nat (n - 1)]) w1 = (Some ValueError, w3)" by simp
  then have "run_loop X self1 mx ([0..<k] @ k # [Suc k..<nat (n - 1)]) w0 = (Some ValueError, w3)"
    using assms(3) by (simp add: run_loop_append)
  moreover have "[0..<nat (n - 1)] = [0..<k] @ k # [Suc k..<nat (n - 1)]"
    using assms(2) by (metis le0 upt_add_eq_append upt_conv_Cons less_imp_le_nat le_add_diff_inverse)
  ultimately show ?thesis
    using assms(1) by (simp add: run_def)
qed

section \<open>Field decomposition\<close>



section \<open>Velocity guard\<close>

text \<open>
  C2 (what the code does). The guard of \<^verbatim>\<open>_update_dipole\<close> reads the speed of the first
  member charge \<^verbatim>\<open>charge_pair[0]\<close> only. For the simulation of one dipole whose origin
  moves at the speed 1 along x and whose moment velocity is \<open>a\<close> along x, so that the
  member charges have the speeds \<open>|1 + a/2|\<close> and \<open>|1 - a/2|\<close> at timestep 1: with
  \<open>a = 2\<close> and the ceiling 1, \<^verbatim>\<open>run\<close> raises ValueError in timestep 0, whatever the
  number of timesteps asked for, and leaves the store as the first update left it; a
  run of two timesteps raises ValueError exactly when the speed of the first member is
  above the ceiling; with \<open>a = -2\<close> and the ceiling 1 the second member has the speed 2
  at timestep 1, the first is at rest, and the run ends without an exception. Without
  an argument, \<open>max_vel\<close> is c/100.
\<close>

theorem velocity_guard_reads_first_member:
  "run (env_moving (1, 0, 0)) sim_pair (world_pair (2, 0, 0)) (2 + int j) 1 None False (Some 1)
     = (Some ValueError,
        sim_pair\<lparr>timesteps := Some (2 + int j), dt := Some 1, save_E := Some False\<rparr>,
        example_update_timestep (1, 0, 0) 0 (2, 0, 0) (2, 0, 0) (0, 0, 0) None (world_pair (2, 0, 0))) \<and>
   fst (run (env_moving (1, 0, 0)) sim_pair (world_pair (a, 0, 0)) 2 1 None False (Some mx)) = (if mx < \<bar>1 + a / 2\<bar> then Some ValueError else None) \<and>
   norm3 (velocity (charge_at (snd (snd (run (env_moving (1, 0, 0)) sim_pair (world_pair (a, 0, 0)) 2 1 None False (Some mx)))) (fst (charge_pair (dipole_at (snd (snd (run (env_moving (1, 0, 0)) sim_pair (world_pair (a, 0, 0)) 2 1 None False (Some mx)))) 0)))) 1)
     = \<bar>1 + a / 2\<bar> \<and>
   norm3 (velocity (charge_at (snd (snd (run (env_moving (1, 0, 0)) sim_pair (world_pair (a, 0, 0)) 2 1 None False (Some mx)))) (snd (charge_pair (dipole_at (snd (snd (run (env_moving (1, 0, 0)) sim_pair (world_pair (a, 0, 0)) 2 1 None False (Some mx)))) 0)))) 1)
     = \<bar>1 - a / 2\<bar> \<and>
   fst (run (env_moving (1, 0, 0)) sim_pair (world_pair (- 2, 0, 0)) 2 1 None False (Some 1)) = None \<and>
   norm3 (velocity (charge_at (snd (snd (run (env_moving (1, 0, 0)) sim_pair (world_pair (- 2, 0, 0)) 2 1 None False (Some 1)))) (snd (charge_pair (dipole_at (snd (snd (run (env_moving (1, 0, 0)) sim_pair (world_pair (- 2, 0, 0)) 2 1 None False (Some 1)))) 0)))) 1) = 2 \<and>
   norm3 (velocity (charge_at (snd (snd (run (env_moving (1, 0, 0)) sim_pair (world_pair (- 2, 0, 0)) 2 1 None False (Some 1)))) (fst (charge_pair (dipole_at (snd (snd (run (env_moving (1, 0, 0)) sim_pair (world_pair (- 2, 0, 0)) 2 1 None False (Some 1)))) 0)))) 1) = 0 \<and>
   (1 :: real) < 2 \<and>
   run X self w n step file s None = run X self w n step file s (Some (const_c / 100))"
proof -
  have v: "norm3 (velocity (charge_at (example_update_timestep (1, 0, 0) 0 (b, 0, 0) (b, 0, 0) (0, 0, 0) None (world_pair (b, 0, 0)))
                 (fst (charge_pair (dipole_at (example_update_timestep (1, 0, 0) 0 (b, 0, 0) (b, 0, 0) (0, 0, 0) None (world_pair (b, 0, 0))) 0)))) 1)
             = \<bar>1 + b / 2\<bar>"
    "norm3 (velocity (charge_at (example_update_timestep (1, 0, 0) 0 (b, 0, 0) (b, 0, 0) (0, 0, 0) None (world_pair (b, 0, 0)))
                 (snd (charge_pair (dipole_at (example_update_timestep (1, 0, 0) 0 (b, 0, 0) (b, 0, 0) (0, 0, 0) None (world_pair (b, 0, 0))) 0)))) 1)
             = \<bar>1 - b / 2\<bar>" for b :: real
    by (simp_all add: example_update_timestep_def world_pair_def moving_dipole_def plain_dipole_def
        Let_def vadd_def vsub_def vdivs_def norm3_def)
  have d: "run X self w n step file s None = run X self w n step file s (Some (const_c / 100))"
    by (simp add: run_def)
  show ?thesis
    unfolding run_pair_steps run_pair_raises fst_conv snd_conv v
    using d by simp
qed

section \<open>The parallel run without its backend\<close>

text \<open>
  C3 (what the code does). When \<^verbatim>\<open>mpi4py\<close> cannot be imported, \<^verbatim>\<open>run_mpi\<close> without a
  file and without field saving does not raise NotImplementedError: it sets
  \<^verbatim>\<open>timesteps\<close>, \<^verbatim>\<open>dt\<close> and \<^verbatim>\<open>save_E\<close>, resets every dipole, and then fails with
  UnboundLocalError where it reads \<^verbatim>\<open>MPI.COMM_WORLD\<close>. With a file that holds a
  matching run it restores the run and returns without any exception.
\<close>

theorem run_mpi_without_mpi4py:
  "run_mpi X self w None n step None False mv =
     (Some UnboundLocalError,
      self\<lparr>timesteps := Some n, dt := Some step, save_E := Some False\<rparr>,
      reset_dipoles X n step False (dipoles self) w) \<and>
   fst (run_mpi (env_moving (1, 0, 0)) sim_pair (world_pair (2, 0, 0)) None 2 1
          (Some ''runs.dat'') False None) = None"
  by (simp add: run_mpi_def init_simulation_def env_moving_def sim_pair_def world_pair_def
        stored_run_def still_charge_def example_reset_def Simulation_load_def Simulation_eq_def
        Let_def)

section \<open>Forcing of the Runge-Kutta stages\<close>

text \<open>
  C4 (as amended). Within one RK4 step the driving field is evaluated anew by each
  stage, at the time of the stage and at the origin of the dipole at that time: the
  step is the scheme driven by the fields at \<open>t\<close>, \<open>t + dt/2\<close>, \<open>t + dt/2\<close> and \<open>t + dt\<close>.
  The driving field of a stage does not depend on the state \<open>y\<close> of the stage.
\<close>

theorem rk4_forcing_per_stage:
  "(dt self = Some step \<longrightarrow>
    E_driving X self w (real k * step) d = Inr E1 \<longrightarrow>
    E_driving X self w (real k * step + step / 2) d = Inr E2 \<longrightarrow>
    E_driving X self w (real k * step + step) d = Inr E4 \<longrightarrow>
    rk4 X self w k d =
      Inr (rk4_with_forcing (dipole_at w d) step
             (moment_disp (dipole_at w d) k, moment_vel (dipole_at w d) k) E1 E2 E2 E4)) \<and>
   LO_equation X self w t y d =
     (case E_driving X self w t d of Inl e \<Rightarrow> Inl e | Inr E \<Rightarrow> Inr (LO_rhs (dipole_at w d) E y))"
  by (simp add: rk4_def rk4_with_forcing_def LO_equation_rhs Let_def)

text \<open>The dipole at rest in the field that grows with time, first timestep.\<close>

theorem rk4_forcing_per_stage_witness:
  "dt sim_ramp = Some 1 \<and>
   E_driving env0 sim_ramp world0 (real 0 * 1) 0 = Inr (0, 0, 0) \<and>
   E_driving env0 sim_ramp world0 (real 0 * 1 + 1 / 2) 0 = Inr (1 / 2, 0, 0) \<and>
   E_driving env0 sim_ramp world0 (real 0 * 1 + 1) 0 = Inr (1, 0, 0) \<and>
   rk4 env0 sim_ramp world0 0 0 =
      Inr (rk4_with_forcing (dipole_at world0 0) 1
             (moment_disp (dipole_at world0 0) 0, moment_vel (dipole_at world0 0) 0)
             (0, 0, 0) (1 / 2, 0, 0) (1 / 2, 0, 0) (1, 0, 0))"
proof -
  have a: "dt sim_ramp = Some 1" by (simp add: sim_ramp_def)
  have b: "E_driving env0 sim_ramp world0 (real 0 * 1) 0 = Inr (0, 0, 0)"
    "E_driving env0 sim_ramp world0 (real 0 * 1 + 1 / 2) 0 = Inr (1 / 2, 0, 0)"
    "E_driving env0 sim_ramp world0 (real 0 * 1 + 1) 0 = Inr (1, 0, 0)"
    by (simp_all add: E_driving_ramp)
  from rk4_forcing_per_stage [THEN conjunct1, rule_format, OF a b] a b
  show ?thesis by (intro conjI) assumption+
qed

text \<open>
  The claim as stated fails: in the field that grows with time the step from rest gives
  the displacement 1/6 and the velocity 1/2, and the scheme with the forcing held at its
  value at \<open>t = 0\<close> gives rest.
\<close>

theorem rk4_constant_forcing_counterexample:
  "E_driving env0 sim_ramp world0 0 0 = Inr (0, 0, 0) \<and>
   rk4 env0 sim_ramp world0 0 0 = Inr ((1 / 6, 0, 0), (1 / 2, 0, 0)) \<and>
   rk4_with_forcing plain_dipole 1 ((0, 0, 0), (0, 0, 0)) (0, 0, 0) (0, 0, 0) (0, 0, 0) (0, 0, 0)
     = ((0, 0, 0), (0, 0, 0)) \<and>
   rk4 env0 sim_ramp world0 0 0 \<noteq>
     Inr (rk4_with_forcing plain_dipole 1 ((0, 0, 0), (0, 0, 0))
            (0, 0, 0) (0, 0, 0) (0, 0, 0) (0, 0, 0))"
proof -
  have s: "dt sim_ramp = Some 1" by (simp add: sim_ramp_def)
  have d: "dipole_at world0 0 = plain_dipole" by (simp add: world0_def)
  have a: "rk4 env0 sim_ramp world0 0 0 = Inr ((1 / 6, 0, 0), (1 / 2, 0, 0))"
    by (simp add: rk4_def s d LO_equation_rhs E_driving_ramp LO_rhs_def
        plain_dipole_def yadd_def yscale_def ydivs_def vadd_def vsub_def vscale_def vdivs_def
        Let_def)
  have b: "rk4_with_forcing plain_dipole 1 ((0, 0, 0), (0, 0, 0)) (0, 0, 0) (0, 0, 0) (0, 0, 0)
      (0, 0, 0) = ((0, 0, 0), (0, 0, 0))"
    by (simp add: rk4_with_forcing_def LO_rhs_def plain_dipole_def yadd_def yscale_def
        ydivs_def vadd_def vsub_def vscale_def vdivs_def Let_def)
  from a b E_driving_ramp [of 0] show ?thesis by simp
qed

section \<open>Retarded-time solving\<close>



section \<open>Magnetic field\<close>

text \<open>
  C6 (as amended). Under each of the three selectors \<^verbatim>\<open>calculate_B\<close> returns the sum,
  over the charges that are not excluded, of the magnetic field of each charge, with
  the value of the external B field added if there is one. The field of a charge is, at
  each point, \<open>(1/(c|r|)) (r \<times> E)\<close>, where \<open>E\<close> is the E field of the charge under the
  selector and \<open>r\<close> the observation point minus the retarded position of the charge;
  this is \<open>(1/c) (r\<^sub>u \<times> E)\<close> with the unit vector \<open>r\<^sub>u\<close> of \<open>r\<close>.
\<close>

theorem calculate_B_per_charge:
  "m \<in> {''Velocity'', ''Acceleration'', ''Total''} \<longrightarrow>
   (\<exists>Bs. map (charge_B X self w t x y z m) (filter (\<lambda>c. \<not> excluded X w ex c) (all_charges self))
           = map Some Bs \<and>
         calculate_B X self w t x y z m ex
           = Inr (add_external (B_field self) t x y z
                   (foldl add3 (zeros x, zeros x, zeros x) Bs))) \<and>
   (\<exists>E B. calculate_individual_E (charge_at w c) (retarded_time X self w t x y z c) x y z m
           = Some E \<and>
         charge_B X self w t x y z m c = Some B \<and>
         points B = map2 B_point
           (points (rel_position (charge_at w c) (retarded_time X self w t x y z c) x y z))
           (points E)) \<and>
   (\<forall>r e. B_point r e = vscale (1 / const_c) (cross3 (vscale (1 / norm3 r) r) e))"
proof (intro impI conjI allI)
  assume m: "m \<in> {''Velocity'', ''Acceleration'', ''Total''}"
  from B_loop_fold [OF m, of X self w t x y z ex "all_charges self" "(zeros x, zeros x, zeros x)"]
  show "\<exists>Bs. map (charge_B X self w t x y z m) (filter (\<lambda>c. \<not> excluded X w ex c) (all_charges self))
           = map Some Bs \<and>
         calculate_B X self w t x y z m ex
           = Inr (add_external (B_field self) t x y z
                   (foldl add3 (zeros x, zeros x, zeros x) Bs))"
    by (auto simp: calculate_B_def)
  from individual_E_known [OF m, of "charge_at w c" "retarded_time X self w t x y z c" x y z]
  obtain E where
    E: "calculate_individual_E (charge_at w c) (retarded_time X self w t x y z c) x y z m = Some E"
    by auto
  then show "\<exists>E B. calculate_individual_E (charge_at w c) (retarded_time X self w t x y z c) x y z m
           = Some E \<and>
         charge_B X self w t x y z m c = Some B \<and>
         points B = map2 B_point
           (points (rel_position (charge_at w c) (retarded_time X self w t x y z c) x y z))
           (points E)"
    by (simp add: charge_B_def points_B_terms)
next
  fix r e
  show "B_point r e = vscale (1 / const_c) (cross3 (vscale (1 / norm3 r) r) e)"
    by (rule B_point_unit)
qed

text \<open>The selector \<^verbatim>\<open>'Total'\<close> on a simulation of one moving charge.\<close>

theorem calculate_B_per_charge_witness:
  "''Total'' \<in> {''Velocity'', ''Acceleration'', ''Total''} \<and>
   (\<exists>Bs. map (charge_B env0 sim_one world_cross 0 [2] [- 1 / 10 ^ 12] [0] ''Total'')
           (filter (\<lambda>c. \<not> excluded env0 world_cross None c) (all_charges sim_one)) = map Some Bs \<and>
         calculate_B env0 sim_one world_cross 0 [2] [- 1 / 10 ^ 12] [0] ''Total'' None
           = Inr (add_external (B_field sim_one) 0 [2] [- 1 / 10 ^ 12] [0] (foldl add3 (zeros [2], zeros [2], zeros [2]) Bs))) \<and>
   (\<exists>E B. calculate_individual_E (charge_at world_cross 0)
           (retarded_time env0 sim_one world_cross 0 [2] [- 1 / 10 ^ 12] [0] 0) [2] [- 1 / 10 ^ 12] [0] ''Total'' = Some E \<and>
         charge_B env0 sim_one world_cross 0 [2] [- 1 / 10 ^ 12] [0] ''Total'' 0 = Some B \<and>
         points B = map2 B_point
           (points (rel_position (charge_at world_cross 0)
              (retarded_time env0 sim_one world_cross 0 [2] [- 1 / 10 ^ 12] [0] 0) [2] [- 1 / 10 ^ 12] [0]))
           (points E))"
proof -
  have a: "''Total'' \<in> {''Velocity'', ''Acceleration'', ''Total''}" by simp
  from calculate_B_per_charge [rule_format, OF a, of env0 sim_one world_cross 0 "[2]"
      "[- 1 / 10 ^ 12]" "[0]" None 0] a
  show ?thesis by (intro conjI) (elim conjE, assumption)+
qed

text \<open>
  The claim as stated, \<open>(1/(c|r|)) (r\<^sub>u \<times> E)\<close>, fails where \<open>|r|\<close> is not 1: for the charge
  moving along y, seen from the distance 2 along x, the field of the code is twice the
  claimed one.
\<close>

theorem calculate_B_unit_vector_counterexample:
  "calculate_individual_E crossing_charge [- 1 / 10 ^ 12] [2] [- 1 / 10 ^ 12] [0] ''Total''
     = Some ([(const_c\<^sup>2 - 1) * const_c / (16 * (const_eps * (pi * const_c ^ 3)))], [- ((const_c\<^sup>2 - 1) / (16 * (const_eps * (pi * const_c ^ 3))))], [0]) \<and>
   calculate_B env0 sim_one world_cross 0 [2] [- 1 / 10 ^ 12] [0] ''Total'' None = Inr ([0], [0], [- ((2 * const_c\<^sup>2 - 2) / (32 * (const_c * (const_eps * (pi * const_c ^ 3)))))]) \<and>
   points ([0], [0], [- ((2 * const_c\<^sup>2 - 2) / (32 * (const_c * (const_eps * (pi * const_c ^ 3)))))]) \<noteq>
     map2 B_point_claimed (points (rel_position crossing_charge [- 1 / 10 ^ 12] [2] [- 1 / 10 ^ 12] [0]))
       (points ([(const_c\<^sup>2 - 1) * const_c / (16 * (const_eps * (pi * const_c ^ 3)))], [- ((const_c\<^sup>2 - 1) / (16 * (const_eps * (pi * const_c ^ 3))))], [0]))"
proof -
  have e: "calculate_individual_E crossing_charge [- 1 / 10 ^ 12] [2] [- 1 / 10 ^ 12] [0] ''Total''
     = Some ([(const_c\<^sup>2 - 1) * const_c / (16 * (const_eps * (pi * const_c ^ 3)))], [- ((const_c\<^sup>2 - 1) / (16 * (const_eps * (pi * const_c ^ 3))))], [0])"
    by (simp add: calculate_individual_E_def crossing_charge_def Let_def
        full_def zeros_def asub_def aadd_def amul_def adiv_def asqr_def acube_def asqrt_def
        sdiv_def smul_def ssub_def)
  have b: "calculate_B env0 sim_one world_cross 0 [2] [- 1 / 10 ^ 12] [0] ''Total'' None = Inr ([0], [0], [- ((2 * const_c\<^sup>2 - 2) / (32 * (const_c * (const_eps * (pi * const_c ^ 3)))))])"
    by (simp add: calculate_B_def sim_one_def env0_def world_cross_def excluded_def
        initial_guess_full calculate_individual_E_def crossing_charge_def Let_def B_terms_def
        add3_def add_external_def full_def zeros_def asub_def aadd_def amul_def adiv_def
        asqr_def acube_def asqrt_def sdiv_def smul_def ssub_def)
  have c: "map2 B_point_claimed (points (rel_position crossing_charge [- 1 / 10 ^ 12] [2] [- 1 / 10 ^ 12] [0]))
       (points ([(const_c\<^sup>2 - 1) * const_c / (16 * (const_eps * (pi * const_c ^ 3)))], [- ((const_c\<^sup>2 - 1) / (16 * (const_eps * (pi * const_c ^ 3))))], [0])) = [(0, 0, (- ((const_c\<^sup>2 - 1) / (16 * (const_eps * (pi * const_c ^ 3))))) / (const_c * 2))]"
    by (simp add: points_def rel_position_def B_point_claimed_def crossing_charge_def
        vscale_def cross3_def norm3_def asub_def zeros_def)
  have d: "- ((2 * const_c\<^sup>2 - 2) / (32 * (const_c * (const_eps * (pi * const_c ^ 3))))) \<noteq> (- ((const_c\<^sup>2 - 1) / (16 * (const_eps * (pi * const_c ^ 3))))) / (const_c * 2)"
    by (simp add: const_c_def const_eps_def field_simps)
  from e b c d show ?thesis by (simp add: points_def)
qed

section \<open>Exclusion\<close>



section \<open>Member charges in the flat list\<close>

text \<open>
  C8 (what the code does). For a simulation built from any mix of charges and dipoles,
  the two member charges of each dipole are objects of \<^verbatim>\<open>all_charges\<close>. A run that is
  restored from a file does not keep it so: \<^verbatim>\<open>_load\<close> gives the dipole the attributes of
  the stored dipole, so its \<^verbatim>\<open>charge_pair\<close> are the charges 2 and 3 of the stored run,
  and \<^verbatim>\<open>all_charges\<close> still holds the charges 0 and 1. The restored members are equal
  to elements of the list, so that Python's \<^verbatim>\<open>in\<close> still finds them, but they are not
  the objects that the field loops read: \<^verbatim>\<open>calculate_V\<close> at the point (5, 0, 0) gives
  0, the potential of the two charges of the list, and the potential of the two member
  charges of the dipole is not 0.
\<close>

theorem members_stale_after_load:
  "members_listed (Simulation_init w srcs Ef Bf tol) w \<and>
   members_listed sim_pair (world_pair (2, 0, 0)) \<and>
   fst (run (env_moving (1, 0, 0)) sim_pair (world_pair (2, 0, 0)) 2 1 (Some ''runs.dat'') False None) = None \<and>
   all_charges (fst (snd (run (env_moving (1, 0, 0)) sim_pair (world_pair (2, 0, 0)) 2 1 (Some ''runs.dat'') False None))) = [0, 1] \<and>
   charge_pair (dipole_at (snd (snd (run (env_moving (1, 0, 0)) sim_pair (world_pair (2, 0, 0)) 2 1 (Some ''runs.dat'') False None))) 0) = (2, 3) \<and>
   \<not> members_listed (fst (snd (run (env_moving (1, 0, 0)) sim_pair (world_pair (2, 0, 0)) 2 1 (Some ''runs.dat'') False None))) (snd (snd (run (env_moving (1, 0, 0)) sim_pair (world_pair (2, 0, 0)) 2 1 (Some ''runs.dat'') False None))) \<and>
   members_in_list (env_moving (1, 0, 0)) (fst (snd (run (env_moving (1, 0, 0)) sim_pair (world_pair (2, 0, 0)) 2 1 (Some ''runs.dat'') False None))) (snd (snd (run (env_moving (1, 0, 0)) sim_pair (world_pair (2, 0, 0)) 2 1 (Some ''runs.dat'') False None))) \<and>
   calculate_V (env_moving (1, 0, 0)) (fst (snd (run (env_moving (1, 0, 0)) sim_pair (world_pair (2, 0, 0)) 2 1 (Some ''runs.dat'') False None))) (snd (snd (run (env_moving (1, 0, 0)) sim_pair (world_pair (2, 0, 0)) 2 1 (Some ''runs.dat'') False None))) 0 [5] [0] [0] None = [0] \<and>
   calculate_V (env_moving (1, 0, 0)) ((fst (snd (run (env_moving (1, 0, 0)) sim_pair (world_pair (2, 0, 0)) 2 1 (Some ''runs.dat'') False None)))\<lparr>all_charges := [2, 3]\<rparr>) (snd (snd (run (env_moving (1, 0, 0)) sim_pair (world_pair (2, 0, 0)) 2 1 (Some ''runs.dat'') False None)))
     0 [5] [0] [0] None = [1 / (80 * pi * const_eps)] \<and>
   1 / (80 * pi * const_eps) \<noteq> 0"
proof -
  have r: "(run (env_moving (1, 0, 0)) sim_pair (world_pair (2, 0, 0)) 2 1 (Some ''runs.dat'') False None) =
     (None, sim_pair\<lparr>timesteps := Some 2, dt := Some 1, save_E := Some False\<rparr>,
      restore_dipoles [(0, 1)] (example_reset 0 2 1 False (world_pair (2, 0, 0))))"
    by (simp add: run_def init_simulation_def env_moving_def sim_pair_def world_pair_def
        stored_run_def still_charge_def example_reset_def Simulation_load_def Simulation_eq_def
        Let_def)
  have a: "members_listed (Simulation_init w srcs Ef Bf tol) w"
    using init_sources_listed [of "([], [])" w]
    by (simp add: members_listed_def Simulation_init_def Let_def list_all_iff)
  have b: "members_listed sim_pair (world_pair (2, 0, 0))"
    by (simp add: members_listed_def sim_pair_def world_pair_def moving_dipole_def
        plain_dipole_def)
  have c: "\<not> members_listed (fst (snd (run (env_moving (1, 0, 0)) sim_pair (world_pair (2, 0, 0)) 2 1 (Some ''runs.dat'') False None))) (snd (snd (run (env_moving (1, 0, 0)) sim_pair (world_pair (2, 0, 0)) 2 1 (Some ''runs.dat'') False None)))"
    "all_charges (fst (snd (run (env_moving (1, 0, 0)) sim_pair (world_pair (2, 0, 0)) 2 1 (Some ''runs.dat'') False None))) = [0, 1]"
    "charge_pair (dipole_at (snd (snd (run (env_moving (1, 0, 0)) sim_pair (world_pair (2, 0, 0)) 2 1 (Some ''runs.dat'') False None))) 0) = (2, 3)"
    unfolding r
    by (simp_all add: members_listed_def sim_pair_def world_pair_def example_reset_def
        moving_dipole_def plain_dipole_def)
  have d: "members_in_list (env_moving (1, 0, 0)) (fst (snd (run (env_moving (1, 0, 0)) sim_pair (world_pair (2, 0, 0)) 2 1 (Some ''runs.dat'') False None))) (snd (snd (run (env_moving (1, 0, 0)) sim_pair (world_pair (2, 0, 0)) 2 1 (Some ''runs.dat'') False None)))"
    unfolding r
    by (simp add: members_in_list_def py_in_def env_moving_def sim_pair_def world_pair_def
        example_reset_def still_charge_def moving_dipole_def plain_dipole_def)
  have e: "calculate_V (env_moving (1, 0, 0)) (fst (snd (run (env_moving (1, 0, 0)) sim_pair (world_pair (2, 0, 0)) 2 1 (Some ''runs.dat'') False None))) (snd (snd (run (env_moving (1, 0, 0)) sim_pair (world_pair (2, 0, 0)) 2 1 (Some ''runs.dat'') False None))) 0 [5] [0] [0] None = [0]"
    unfolding r
    by (simp add: calculate_V_def excluded_def env_moving_def sim_pair_def world_pair_def
        example_reset_def still_charge_def moving_dipole_def plain_dipole_def initial_guess_full
        full_def zeros_def asub_def aadd_def amul_def asqr_def asqrt_def sdiv_def smul_def Let_def)
  have f: "calculate_V (env_moving (1, 0, 0)) ((fst (snd (run (env_moving (1, 0, 0)) sim_pair (world_pair (2, 0, 0)) 2 1 (Some ''runs.dat'') False None)))\<lparr>all_charges := [2, 3]\<rparr>) (snd (snd (run (env_moving (1, 0, 0)) sim_pair (world_pair (2, 0, 0)) 2 1 (Some ''runs.dat'') False None)))
     0 [5] [0] [0] None = [1 / (80 * pi * const_eps)]"
    unfolding r
    by (simp add: calculate_V_def excluded_def env_moving_def sim_pair_def world_pair_def
        example_reset_def still_charge_def moving_dipole_def plain_dipole_def initial_guess_full
        full_def zeros_def asub_def aadd_def amul_def asqr_def asqrt_def sdiv_def smul_def Let_def
        const_c_def field_simps)
  have g: "1 / (80 * pi * const_eps) \<noteq> 0" by (simp add: const_eps_def)
  from r a b c d e f g show ?thesis by simp
qed

section \<open>Equality of simulations\<close>


section \<open>Unknown selectors\<close>

text \<open>
  C10. \<^verbatim>\<open>_calculate_individual_E\<close> returns a field exactly when the selector is one of
  the strings \<^verbatim>\<open>'Velocity'\<close>, \<^verbatim>\<open>'Acceleration'\<close>, \<^verbatim>\<open>'Total'\<close>, and \<^verbatim>\<open>None\<close> for every other
  selector. With another selector and a charge that is not excluded, \<^verbatim>\<open>calculate_E\<close>
  and \<^verbatim>\<open>calculate_B\<close> raise TypeError: neither falls back to a default mode.
\<close>

theorem unknown_selector_no_default:
  "((calculate_individual_E ch tr x y z m = None) = (m \<notin> {''Velocity'', ''Acceleration'', ''Total''})) \<and>
   (m \<notin> {''Velocity'', ''Acceleration'', ''Total''} \<longrightarrow> c \<in> set (all_charges self) \<longrightarrow>
      \<not> excluded X w ex c \<longrightarrow>
      calculate_E X self w t x' y' z' m ex = Inl TypeError \<and>
      calculate_B X self w t x' y' z' m ex = Inl TypeError)"
proof (cases "m \<in> {''Velocity'', ''Acceleration'', ''Total''}")
  case True
  with individual_E_known [of m ch tr x y z] show ?thesis by blast
next
  case False
  with individual_E_unknown [of m ch tr x y z] show ?thesis
    by (simp add: calculate_E_def calculate_B_def E_loop_unknown B_loop_unknown)
qed

text \<open>The selector \<^verbatim>\<open>'total'\<close>, in lower case, on a simulation of one charge.\<close>

theorem unknown_selector_no_default_witness:
  "''total'' \<notin> {''Velocity'', ''Acceleration'', ''Total''} \<and> 0 \<in> set (all_charges sim_one) \<and>
   \<not> excluded env0 world0 None 0 \<and>
   calculate_individual_E still_charge [0] [1] [0] [0] ''total'' = None \<and>
   calculate_E env0 sim_one world0 0 [1] [0] [0] ''total'' None = Inl TypeError \<and>
   calculate_B env0 sim_one world0 0 [1] [0] [0] ''total'' None = Inl TypeError"
proof -
  have a: "''total'' \<notin> {''Velocity'', ''Acceleration'', ''Total''}" by simp
  have b: "0 \<in> set (all_charges sim_one)" by (simp add: sim_one_def)
  have c: "\<not> excluded env0 world0 None 0" by (simp add: excluded_def)
  note th = unknown_selector_no_default
    [of still_charge "[0]" "[1]" "[0]" "[0]" "''total''" 0 sim_one env0 world0 None 0 "[1]" "[0]" "[0]"]
  from th a have n: "calculate_individual_E still_charge [0] [1] [0] [0] ''total'' = None"
    by (elim conjE) (simp only: simp_thms)
  from th [THEN conjunct2, rule_format, OF a b c] a b c n show ?thesis
    by (intro conjI) (elim conjE, assumption)+
qed

end
